theory Spec2Isabelle
  imports Complex_Main "HOL-Library.Word"
begin

section \<open>Numbers\<close>

text \<open>
  The generator computes with JavaScript numbers. They are modelled as real numbers, so
  the rounding of IEEE doubles is abstracted away; the non-finite values that the source
  can produce from finite operands are kept: \<open>Math.pow\<close> of a negative base with a
  fractional exponent is \<open>NaN\<close>, \<open>0 / 0\<close> is \<open>NaN\<close>, and every comparison with
  \<open>NaN\<close> is false.
\<close>

datatype jsnum = Fin real | PInf | NInf | NaN

text \<open>\<open>Math.pow(x, y)\<close> on finite operands (signed zeros are not distinguished).\<close>

definition js_pow :: "real \<Rightarrow> real \<Rightarrow> jsnum" where
  "js_pow x y =
     (if y = 0 then Fin 1
      else if 0 < x then Fin (x powr y)
      else if x = 0 then (if 0 < y then Fin 0 else PInf)
      else if y \<in> \<int> then Fin (x powi \<lfloor>y\<rfloor>)
      else NaN)"

text \<open>\<open>v / 2\<close> and \<open>1 - v\<close> on a possibly non-finite number.\<close>

fun js_half :: "jsnum \<Rightarrow> jsnum" where
  "js_half (Fin x) = Fin (x / 2)"
| "js_half PInf = PInf"
| "js_half NInf = NInf"
| "js_half NaN = NaN"

fun js_one_minus :: "jsnum \<Rightarrow> jsnum" where
  "js_one_minus (Fin x) = Fin (1 - x)"
| "js_one_minus PInf = NInf"
| "js_one_minus NInf = PInf"
| "js_one_minus NaN = NaN"

text \<open>
  \<open>Math.max(0, Math.min(1, v))\<close>: \<open>Math.min\<close> and \<open>Math.max\<close> return \<open>NaN\<close> as
  soon as one argument is \<open>NaN\<close>.
\<close>

fun js_clamp01 :: "jsnum \<Rightarrow> jsnum" where
  "js_clamp01 (Fin x) = Fin (max 0 (min 1 x))"
| "js_clamp01 PInf = Fin 1"
| "js_clamp01 NInf = Fin 0"
| "js_clamp01 NaN = NaN"

section \<open>Data model\<close>

record rgb =
  rgb_r :: real
  rgb_g :: real
  rgb_b :: real

record lab =
  lab_L :: real
  lab_a :: real
  lab_b :: real

text \<open>
  The decoded RGBA buffer \<open>imageData.data\<close>. An \<open>ImageData\<close> always holds whole
  pixels (\<open>4 * width * height\<close> bytes), so the buffer is a list of pixels; the source
  addresses it by byte offset, and so does the model, through \<open>data_length\<close> and
  \<open>data_at\<close>.
\<close>

type_synonym byte = "8 word"
type_synonym pixel = "byte \<times> byte \<times> byte \<times> byte"

definition data_length :: "pixel list \<Rightarrow> nat" where
  "data_length data = 4 * length data"

text \<open>\<open>data[i]\<close>; the loops read it only at \<open>i + k < data.length\<close>.\<close>

definition data_at :: "pixel list \<Rightarrow> nat \<Rightarrow> int" where
  "data_at data i =
     (case data ! (i div 4) of
        (r, g, b, a) \<Rightarrow>
          uint (if i mod 4 = 0 then r else if i mod 4 = 1 then g
                else if i mod 4 = 2 then b else a))"

text \<open>The result of \<open>processZone\<close> for a zone that has samples.\<close>

record zone_stats =
  zs_count :: nat
  zs_rgb :: rgb
  zs_luminance_avg :: real
  zs_lab :: lab

text \<open>What \<open>analyzeImageAdvanced\<close> resolves to; an empty zone is \<open>null\<close>.\<close>

record image_analysis =
  isBlackAndWhite :: bool
  shadows :: "zone_stats option"
  midtones :: "zone_stats option"
  highlights :: "zone_stats option"

text \<open>
  A zone of \<open>combinedAnalysis\<close>. The field \<open>luminance\<close> is the object \<open>{avg}\<close>,
  whose presence the monochrome branch tests; \<open>None\<close> stands for an absent (falsy)
  property.
\<close>

record combined_zone =
  cz_rgb :: rgb
  cz_luminance :: "real option"
  cz_lab :: lab
  cz_weight :: nat

record global_stats =
  contrast :: real
  saturation :: real
  colorTemperature :: real
  tint :: real

record combined_analysis =
  ca_isBlackAndWhite :: bool
  ca_shadows :: combined_zone
  ca_midtones :: combined_zone
  ca_highlights :: combined_zone
  globalStats :: global_stats

record camera_profile =
  shadows_lift :: rgb
  midtones_gamma :: rgb
  highlights_gain :: rgb
  colorMatrix :: "real list list"

definition universalCameraProfile :: camera_profile where
  "universalCameraProfile =
     \<lparr>shadows_lift = \<lparr>rgb_r = 0.015, rgb_g = 0.012, rgb_b = 0.008\<rparr>,
      midtones_gamma = \<lparr>rgb_r = 0.5, rgb_g = 0.5, rgb_b = 0.5\<rparr>,
      highlights_gain = \<lparr>rgb_r = 0.95, rgb_g = 0.95, rgb_b = 0.95\<rparr>,
      colorMatrix = [[1.0, 0.0, 0.0], [0.0, 1.0, 0.0], [0.0, 0.0, 1.0]]\<rparr>"

section \<open>Colour space conversion\<close>

definition lab_f :: "real \<Rightarrow> real" where
  "lab_f t = (if t > 0.008856 then t powr (1 / 3) else 7.787 * t + 16 / 116)"

definition rgbToLab :: "real \<Rightarrow> real \<Rightarrow> real \<Rightarrow> lab" where
  "rgbToLab r g b =
     (let x = (r * 0.4124564 + g * 0.3575761 + b * 0.1804375) / 0.95047;
          y = (r * 0.2126729 + g * 0.7151522 + b * 0.072175) / 1.0;
          z = (r * 0.0193339 + g * 0.119192 + b * 0.9503041) / 1.08883;
          x' = lab_f x; y' = lab_f y; z' = lab_f z
      in \<lparr>lab_L = 116 * y' - 16, lab_a = 500 * (x' - y'), lab_b = 200 * (y' - z')\<rparr>)"

definition rgbToGrayscale :: "real \<Rightarrow> real \<Rightarrow> real \<Rightarrow> string \<Rightarrow> real" where
  "rgbToGrayscale r g b method =
     (if method = ''luminance'' then 0.299 * r + 0.587 * g + 0.114 * b
      else if method = ''average'' then (r + g + b) / 3
      else if method = ''red'' then r
      else if method = ''green'' then g
      else if method = ''blue'' then b
      else if method = ''max'' then max (max r g) b
      else if method = ''min'' then min (min r g) b
      else 0.299 * r + 0.587 * g + 0.114 * b)"

section \<open>Monochrome detection\<close>

text \<open>The test of one sampled pixel, at byte offset \<open>i\<close>.\<close>

definition colourful_at :: "pixel list \<Rightarrow> nat \<Rightarrow> bool" where
  "colourful_at data i =
     (let r = data_at data i; g = data_at data (i + 1); b = data_at data (i + 2)
      in max (max \<bar>r - g\<bar> \<bar>g - b\<bar>) \<bar>r - b\<bar> > 10)"

text \<open>The loop \<open>for (let i = 0; i < data.length; i += 40)\<close> with its counter.\<close>

function count_colourful :: "pixel list \<Rightarrow> nat \<Rightarrow> nat \<Rightarrow> nat" where
  "count_colourful data i colourfulPixels =
     (if i < data_length data
      then count_colourful data (i + 40)
             (if colourful_at data i then colourfulPixels + 1 else colourfulPixels)
      else colourfulPixels)"
  by pat_completeness auto
termination
  by (relation "measure (\<lambda>(data, i, c). data_length data - i)") auto

declare count_colourful.simps [simp del]

text \<open>
  \<open>colourfulPixels / (data.length / 40) < 0.05\<close>. For an empty buffer the quotient is
  \<open>0 / 0 = NaN\<close> and the comparison is false.
\<close>

definition detectBlackAndWhite :: "pixel list \<Rightarrow> bool" where
  "detectBlackAndWhite data =
     (if data_length data = 0 then False
      else real (count_colourful data 0 0) / (real (data_length data) / 40) < 0.05)"

section \<open>Zone sampling\<close>

record zone_samples =
  zr :: "real list"
  zg :: "real list"
  zb :: "real list"
  zluminance :: "real list"
  zlab :: "lab list"

definition no_samples :: zone_samples where
  "no_samples = \<lparr>zr = [], zg = [], zb = [], zluminance = [], zlab = []\<rparr>"

definition push_sample ::
  "zone_samples \<Rightarrow> real \<Rightarrow> real \<Rightarrow> real \<Rightarrow> real \<Rightarrow> lab \<Rightarrow> zone_samples" where
  "push_sample z r g b l c =
     \<lparr>zr = zr z @ [r], zg = zg z @ [g], zb = zb z @ [b],
      zluminance = zluminance z @ [l], zlab = zlab z @ [c]\<rparr>"

record sampling =
  s_shadows :: zone_samples
  s_midtones :: zone_samples
  s_highlights :: zone_samples

definition sampleRate :: nat where
  "sampleRate = 16"

text \<open>
  The body of the sampling loop at byte offset \<open>i\<close>. The luminance compared with the
  thresholds 0.25 and 0.75 is the exact real value, where the code compares the rounded
  double: a pixel whose exact luminance is a threshold, such as \<open>(23, 73, 123)\<close> with
  luminance exactly 0.25, can fall into the neighbouring zone in the code. The images
  analysed below have sampled luminances of 128/255 and 1, away from both thresholds.
\<close>

definition sample_step :: "pixel list \<Rightarrow> nat \<Rightarrow> sampling \<Rightarrow> sampling" where
  "sample_step data i st =
     (let r = real_of_int (data_at data i) / 255;
          g = real_of_int (data_at data (i + 1)) / 255;
          b = real_of_int (data_at data (i + 2)) / 255;
          luminance = rgbToGrayscale r g b ''luminance'';
          c = rgbToLab r g b
      in if luminance < 0.25
           then st\<lparr>s_shadows := push_sample (s_shadows st) r g b luminance c\<rparr>
         else if luminance < 0.75
           then st\<lparr>s_midtones := push_sample (s_midtones st) r g b luminance c\<rparr>
         else st\<lparr>s_highlights := push_sample (s_highlights st) r g b luminance c\<rparr>)"

function sample_loop :: "pixel list \<Rightarrow> nat \<Rightarrow> sampling \<Rightarrow> sampling" where
  "sample_loop data i st =
     (if i < data_length data
      then sample_loop data (i + 4 * sampleRate) (sample_step data i st)
      else st)"
  by pat_completeness auto
termination
  by (relation "measure (\<lambda>(data, i, st). data_length data - i)")
     (auto simp: sampleRate_def)

declare sample_loop.simps [simp del]

definition processZone :: "zone_samples \<Rightarrow> zone_stats option" where
  "processZone zone =
     (if length (zr zone) = 0 then None
      else Some
        \<lparr>zs_count = length (zr zone),
         zs_rgb = \<lparr>rgb_r = sum_list (zr zone) / real (length (zr zone)),
                   rgb_g = sum_list (zg zone) / real (length (zg zone)),
                   rgb_b = sum_list (zb zone) / real (length (zb zone))\<rparr>,
         zs_luminance_avg = sum_list (zluminance zone) / real (length (zluminance zone)),
         zs_lab = \<lparr>lab_L = sum_list (map lab_L (zlab zone)) / real (length (zlab zone)),
                   lab_a = sum_list (map lab_a (zlab zone)) / real (length (zlab zone)),
                   lab_b = sum_list (map lab_b (zlab zone)) / real (length (zlab zone))\<rparr>\<rparr>)"

text \<open>The analysis of one decoded buffer: the part of \<open>img.onload\<close> after decoding.\<close>

definition analyse_buffer :: "pixel list \<Rightarrow> image_analysis" where
  "analyse_buffer data =
     (let isBW = detectBlackAndWhite data;
          st = sample_loop data 0
                 \<lparr>s_shadows = no_samples, s_midtones = no_samples,
                  s_highlights = no_samples\<rparr>
      in \<lparr>isBlackAndWhite = isBW,
          shadows = processZone (s_shadows st),
          midtones = processZone (s_midtones st),
          highlights = processZone (s_highlights st)\<rparr>)"

text \<open>
  Loading and decoding are done by the browser. A reference image either gives a decoded
  buffer or makes the promise reject: the image fails to load, the 30 second timer
  fires first, or the pixels cannot be read.
\<close>

datatype analysis_error = LoadFailed | TimedOut | ReadFailed

definition analyzeImageAdvanced ::
  "analysis_error + pixel list \<Rightarrow> analysis_error + image_analysis" where
  "analyzeImageAdvanced img =
     (case img of Inl e \<Rightarrow> Inl e | Inr data \<Rightarrow> Inr (analyse_buffer data))"

section \<open>Aggregation over the batch\<close>

definition zero_zone :: combined_zone where
  "zero_zone =
     \<lparr>cz_rgb = \<lparr>rgb_r = 0, rgb_g = 0, rgb_b = 0\<rparr>,
      cz_luminance = Some 0,
      cz_lab = \<lparr>lab_L = 0, lab_a = 0, lab_b = 0\<rparr>,
      cz_weight = 0\<rparr>"

text \<open>
  The body of the inner \<open>forEach\<close> for one zone of one image: the weighted sums are
  extended only when the image has that zone and its count is positive.
\<close>

definition accumulate_zone :: "combined_zone \<Rightarrow> zone_stats option \<Rightarrow> combined_zone" where
  "accumulate_zone cz zo =
     (case zo of
        None \<Rightarrow> cz
      | Some z \<Rightarrow>
          if zs_count z > 0 then
            (let weight = real (zs_count z) in
             \<lparr>cz_rgb = \<lparr>rgb_r = rgb_r (cz_rgb cz) + rgb_r (zs_rgb z) * weight,
                        rgb_g = rgb_g (cz_rgb cz) + rgb_g (zs_rgb z) * weight,
                        rgb_b = rgb_b (cz_rgb cz) + rgb_b (zs_rgb z) * weight\<rparr>,
              cz_luminance =
                map_option (\<lambda>avg. avg + zs_luminance_avg z * weight) (cz_luminance cz),
              cz_lab = \<lparr>lab_L = lab_L (cz_lab cz) + lab_L (zs_lab z) * weight,
                        lab_a = lab_a (cz_lab cz) + lab_a (zs_lab z) * weight,
                        lab_b = lab_b (cz_lab cz) + lab_b (zs_lab z) * weight\<rparr>,
              cz_weight = cz_weight cz + zs_count z\<rparr>)
          else cz)"

definition accumulate :: "combined_analysis \<Rightarrow> image_analysis \<Rightarrow> combined_analysis" where
  "accumulate ca a =
     ca\<lparr>ca_shadows := accumulate_zone (ca_shadows ca) (shadows a),
        ca_midtones := accumulate_zone (ca_midtones ca) (midtones a),
        ca_highlights := accumulate_zone (ca_highlights ca) (highlights a)\<rparr>"

text \<open>
  The second \<open>forEach\<close>: the sums are divided by the weight only if it is positive. In
  the code a quotient with divisor 0 is \<open>NaN\<close> or an infinity, whereas division of the
  reals is total (\<open>x / 0 = 0\<close>), so the value alone would not show a division by 0. The
  step therefore returns, with the zone, the divisors of the divisions it performs: one
  entry for each of the seven \<open>/=\<close> assignments, in their order. As long as no entry is
  0 the quotients of the model are those of the code.
\<close>

definition normalise_zone :: "combined_zone \<Rightarrow> combined_zone \<times> nat list" where
  "normalise_zone cz =
     (if cz_weight cz > 0 then
        (let w = real (cz_weight cz) in
         (\<lparr>cz_rgb = \<lparr>rgb_r = rgb_r (cz_rgb cz) / w, rgb_g = rgb_g (cz_rgb cz) / w,
                     rgb_b = rgb_b (cz_rgb cz) / w\<rparr>,
           cz_luminance = map_option (\<lambda>avg. avg / w) (cz_luminance cz),
           cz_lab = \<lparr>lab_L = lab_L (cz_lab cz) / w, lab_a = lab_a (cz_lab cz) / w,
                     lab_b = lab_b (cz_lab cz) / w\<rparr>,
           cz_weight = cz_weight cz\<rparr>,
          replicate 7 (cz_weight cz)))
      else (cz, []))"

definition initial_analysis :: "bool \<Rightarrow> combined_analysis" where
  "initial_analysis hasBlackAndWhite =
     \<lparr>ca_isBlackAndWhite = hasBlackAndWhite,
      ca_shadows = zero_zone, ca_midtones = zero_zone, ca_highlights = zero_zone,
      globalStats = \<lparr>contrast = 0.5, saturation = 0.5, colorTemperature = 0, tint = 0\<rparr>\<rparr>"

text \<open>
  The aggregation of a batch: the combined analysis that the rest of the run reads, and
  for each zone the divisors of the divisions performed on it.
\<close>

record zone_divisors =
  dv_shadows :: "nat list"
  dv_midtones :: "nat list"
  dv_highlights :: "nat list"

definition aggregate :: "image_analysis list \<Rightarrow> combined_analysis \<times> zone_divisors" where
  "aggregate analyses =
     (let hasBlackAndWhite = list_ex isBlackAndWhite analyses;
          summed = foldl accumulate (initial_analysis hasBlackAndWhite) analyses;
          s = normalise_zone (ca_shadows summed);
          m = normalise_zone (ca_midtones summed);
          h = normalise_zone (ca_highlights summed)
      in (summed\<lparr>ca_shadows := fst s, ca_midtones := fst m, ca_highlights := fst h\<rparr>,
          \<lparr>dv_shadows = snd s, dv_midtones = snd m, dv_highlights = snd h\<rparr>))"

definition combine_analyses :: "image_analysis list \<Rightarrow> combined_analysis" where
  "combine_analyses analyses = fst (aggregate analyses)"

definition aggregation_divisors :: "image_analysis list \<Rightarrow> zone_divisors" where
  "aggregation_divisors analyses = snd (aggregate analyses)"

section \<open>Transform solving\<close>

text \<open>
  The divisors are the components of \<open>universalCameraProfile\<close>, none of which is zero.
\<close>

definition calculateTransform :: "int \<Rightarrow> rgb \<Rightarrow> rgb \<Rightarrow> rgb" where
  "calculateTransform intensityLevel neutralBase targetRgb =
     (let baseIntensity = 0.5 + (real_of_int intensityLevel - 1) * 0.25;
          finalIntensity = baseIntensity
      in \<lparr>rgb_r = min 3.0 (max 0.1
                    ((rgb_r targetRgb / rgb_r neutralBase - 1) * finalIntensity + 1)),
          rgb_g = min 3.0 (max 0.1
                    ((rgb_g targetRgb / rgb_g neutralBase - 1) * finalIntensity + 1)),
          rgb_b = min 3.0 (max 0.1
                    ((rgb_b targetRgb / rgb_b neutralBase - 1) * finalIntensity + 1))\<rparr>)"

record transforms =
  t_shadows :: rgb
  t_midtones :: rgb
  t_highlights :: rgb

definition solve_transforms :: "int \<Rightarrow> combined_analysis \<Rightarrow> transforms" where
  "solve_transforms intensityLevel ca =
     \<lparr>t_shadows = calculateTransform intensityLevel
                     (shadows_lift universalCameraProfile) (cz_rgb (ca_shadows ca)),
      t_midtones = calculateTransform intensityLevel
                     (midtones_gamma universalCameraProfile) (cz_rgb (ca_midtones ca)),
      t_highlights = calculateTransform intensityLevel
                     (highlights_gain universalCameraProfile) (cz_rgb (ca_highlights ca))\<rparr>"

definition contrastBoost :: "int \<Rightarrow> combined_analysis \<Rightarrow> real" where
  "contrastBoost intensityLevel ca =
     1 + (contrast (globalStats ca) - 0.3) * (real_of_int intensityLevel * 0.3)"

definition saturationBoost :: "int \<Rightarrow> combined_analysis \<Rightarrow> real" where
  "saturationBoost intensityLevel ca =
     1 + (saturation (globalStats ca) - 0.4) * (real_of_int intensityLevel * 0.4)"

definition temperatureShift :: "int \<Rightarrow> combined_analysis \<Rightarrow> real" where
  "temperatureShift intensityLevel ca =
     colorTemperature (globalStats ca) * (real_of_int intensityLevel * 0.002)"

definition tintShift :: "int \<Rightarrow> combined_analysis \<Rightarrow> real" where
  "tintShift intensityLevel ca =
     tint (globalStats ca) * (real_of_int intensityLevel * 0.002)"

section \<open>Lattice synthesis: the monochrome branch\<close>

text \<open>
  One of the three guarded blends of the monochrome branch. The guard is
  \<open>weight > 0 && combinedAnalysis.<zone>.luminance\<close>; under it the base of
  \<open>Math.pow\<close> is positive.
\<close>

definition bw_zone_blend :: "real \<Rightarrow> real option \<Rightarrow> real \<Rightarrow> real \<Rightarrow> real \<Rightarrow> real" where
  "bw_zone_blend weight zone_luminance exponent intensityFactor mappedLuminance =
     (case zone_luminance of
        None \<Rightarrow> mappedLuminance
      | Some target \<Rightarrow>
          if weight > 0 then
            (let factor = weight powr exponent
             in mappedLuminance * (1 - factor * intensityFactor)
                + target * factor * intensityFactor)
          else mappedLuminance)"

text \<open>The three ramp weights of the monochrome branch, as (shadow, midtone, highlight).\<close>

definition bw_weights :: "real \<Rightarrow> real \<times> real \<times> real" where
  "bw_weights grayscale =
     (let shadowWeight = max 0 (min 1 ((0.3 - grayscale) / 0.3));
          highlightWeight = max 0 (min 1 ((grayscale - 0.7) / 0.3));
          midtoneWeight = max 0 (1 - shadowWeight - highlightWeight)
      in (shadowWeight, midtoneWeight, highlightWeight))"

definition bw_cell ::
  "int \<Rightarrow> string \<Rightarrow> combined_analysis \<Rightarrow> real \<Rightarrow> real \<Rightarrow> real \<Rightarrow> real" where
  "bw_cell intensityLevel method ca inputR inputG inputB =
     (let grayscale = rgbToGrayscale inputR inputG inputB method;
          (shadowWeight, midtoneWeight, highlightWeight) = bw_weights grayscale;
          intensityFactor = real_of_int intensityLevel * 0.2;
          m1 = bw_zone_blend shadowWeight (cz_luminance (ca_shadows ca)) 0.8
                 intensityFactor grayscale;
          m2 = bw_zone_blend midtoneWeight (cz_luminance (ca_midtones ca)) 0.6
                 intensityFactor m1;
          m3 = bw_zone_blend highlightWeight (cz_luminance (ca_highlights ca)) 0.8
                 intensityFactor m2
      in max 0 (min 1 m3))"

section \<open>Lattice synthesis: the colour branch\<close>

definition mix :: "real \<Rightarrow> rgb \<Rightarrow> rgb \<Rightarrow> rgb" where
  "mix factor out target =
     \<lparr>rgb_r = rgb_r out * (1 - factor) + rgb_r target * factor,
      rgb_g = rgb_g out * (1 - factor) + rgb_g target * factor,
      rgb_b = rgb_b out * (1 - factor) + rgb_b target * factor\<rparr>"

definition shadow_blend :: "real \<Rightarrow> real \<Rightarrow> rgb \<Rightarrow> rgb \<Rightarrow> rgb \<Rightarrow> rgb \<Rightarrow> rgb" where
  "shadow_blend blendStrength shadowWeight gain zone_rgb inp out =
     (if shadowWeight > 0 then
        (let factor = shadowWeight powr 0.7 * blendStrength
         in mix factor out
              \<lparr>rgb_r = rgb_r inp * rgb_r gain * 0.8 + rgb_r zone_rgb * 0.2,
               rgb_g = rgb_g inp * rgb_g gain * 0.8 + rgb_g zone_rgb * 0.2,
               rgb_b = rgb_b inp * rgb_b gain * 0.8 + rgb_b zone_rgb * 0.2\<rparr>)
      else out)"

definition midtone_blend :: "real \<Rightarrow> real \<Rightarrow> rgb \<Rightarrow> rgb \<Rightarrow> rgb \<Rightarrow> rgb" where
  "midtone_blend blendStrength midtoneWeight gain inp out =
     (if midtoneWeight > 0 then
        (let factor = midtoneWeight powr 0.5 * blendStrength
         in mix factor out
              \<lparr>rgb_r = rgb_r inp * rgb_r gain,
               rgb_g = rgb_g inp * rgb_g gain,
               rgb_b = rgb_b inp * rgb_b gain\<rparr>)
      else out)"

definition highlight_blend :: "real \<Rightarrow> real \<Rightarrow> rgb \<Rightarrow> rgb \<Rightarrow> rgb \<Rightarrow> rgb \<Rightarrow> rgb" where
  "highlight_blend blendStrength highlightWeight gain zone_rgb inp out =
     (if highlightWeight > 0 then
        (let factor = highlightWeight powr 0.7 * blendStrength
         in mix factor out
              \<lparr>rgb_r = rgb_r inp * rgb_r gain * 0.9 + rgb_r zone_rgb * 0.1,
               rgb_g = rgb_g inp * rgb_g gain * 0.9 + rgb_g zone_rgb * 0.1,
               rgb_b = rgb_b inp * rgb_b gain * 0.9 + rgb_b zone_rgb * 0.1\<rparr>)
      else out)"

definition apply_matrix :: "real list list \<Rightarrow> rgb \<Rightarrow> rgb" where
  "apply_matrix m out =
     \<lparr>rgb_r = rgb_r out * m ! 0 ! 0 + rgb_g out * m ! 0 ! 1 + rgb_b out * m ! 0 ! 2,
      rgb_g = rgb_r out * m ! 1 ! 0 + rgb_g out * m ! 1 ! 1 + rgb_b out * m ! 1 ! 2,
      rgb_b = rgb_r out * m ! 2 ! 0 + rgb_g out * m ! 2 ! 1 + rgb_b out * m ! 2 ! 2\<rparr>"

text \<open>\<open>outputR += temperatureShift; outputB -= temperatureShift; outputG += tintShift\<close>\<close>

definition global_shift :: "real \<Rightarrow> real \<Rightarrow> rgb \<Rightarrow> rgb" where
  "global_shift temperature_shift tint_shift out =
     \<lparr>rgb_r = rgb_r out + temperature_shift,
      rgb_g = rgb_g out + tint_shift,
      rgb_b = rgb_b out - temperature_shift\<rparr>"

definition saturate :: "real \<Rightarrow> rgb \<Rightarrow> rgb" where
  "saturate boost out =
     (let currentLum = rgbToGrayscale (rgb_r out) (rgb_g out) (rgb_b out) ''luminance''
      in \<lparr>rgb_r = currentLum + (rgb_r out - currentLum) * boost,
          rgb_g = currentLum + (rgb_g out - currentLum) * boost,
          rgb_b = currentLum + (rgb_b out - currentLum) * boost\<rparr>)"

text \<open>The base of \<open>Math.pow\<close> is not guarded here: it is negative outside \<open>[0, 1]\<close>.\<close>

definition applySCurve :: "real \<Rightarrow> real \<Rightarrow> jsnum" where
  "applySCurve v strength =
     (if v < 0.5 then js_half (js_pow (v * 2) strength)
      else js_one_minus (js_half (js_pow ((1 - v) * 2) strength)))"

definition contrast_curve :: "real \<Rightarrow> rgb \<Rightarrow> jsnum \<times> jsnum \<times> jsnum" where
  "contrast_curve boost out =
     (if boost \<noteq> 1 then
        (applySCurve (rgb_r out) boost, applySCurve (rgb_g out) boost,
         applySCurve (rgb_b out) boost)
      else (Fin (rgb_r out), Fin (rgb_g out), Fin (rgb_b out)))"

text \<open>The three ramp weights of the colour branch, as (shadow, midtone, highlight).\<close>

definition colour_weights :: "real \<Rightarrow> real \<times> real \<times> real" where
  "colour_weights luminance =
     (let shadowWeight = max 0 (min 1 ((0.35 - luminance) / 0.35));
          highlightWeight = max 0 (min 1 ((luminance - 0.65) / 0.35));
          midtoneWeight = max 0 (1 - shadowWeight - highlightWeight)
      in (shadowWeight, midtoneWeight, highlightWeight))"

text \<open>The running triplet after the three zone blends.\<close>

definition colour_blends :: "int \<Rightarrow> combined_analysis \<Rightarrow> transforms \<Rightarrow> rgb \<Rightarrow> rgb" where
  "colour_blends intensityLevel ca tr inp =
     (let luminance = rgbToGrayscale (rgb_r inp) (rgb_g inp) (rgb_b inp) ''luminance'';
          (shadowWeight, midtoneWeight, highlightWeight) = colour_weights luminance;
          blendStrength = real_of_int intensityLevel * 0.15;
          o1 = shadow_blend blendStrength shadowWeight (t_shadows tr)
                 (cz_rgb (ca_shadows ca)) inp inp;
          o2 = midtone_blend blendStrength midtoneWeight (t_midtones tr) inp o1
      in highlight_blend blendStrength highlightWeight (t_highlights tr)
           (cz_rgb (ca_highlights ca)) inp o2)"

definition colour_cell ::
  "int \<Rightarrow> combined_analysis \<Rightarrow> transforms \<Rightarrow> real \<Rightarrow> real \<Rightarrow> real
     \<Rightarrow> jsnum \<times> jsnum \<times> jsnum" where
  "colour_cell intensityLevel ca tr inputR inputG inputB =
     (let o3 = colour_blends intensityLevel ca tr
                 \<lparr>rgb_r = inputR, rgb_g = inputG, rgb_b = inputB\<rparr>;
          o4 = apply_matrix (colorMatrix universalCameraProfile) o3;
          o5 = global_shift (temperatureShift intensityLevel ca)
                 (tintShift intensityLevel ca) o4;
          o6 = saturate (saturationBoost intensityLevel ca) o5
      in contrast_curve (contrastBoost intensityLevel ca) o6)"

section \<open>Lattice synthesis: one lattice point\<close>

text \<open>The output triplet before the final clamp, for finite normalised inputs.\<close>

definition lut_cell ::
  "int \<Rightarrow> string \<Rightarrow> combined_analysis \<Rightarrow> transforms \<Rightarrow> real \<Rightarrow> real \<Rightarrow> real
     \<Rightarrow> jsnum \<times> jsnum \<times> jsnum" where
  "lut_cell intensityLevel method ca tr inputR inputG inputB =
     (if ca_isBlackAndWhite ca then
        (let mappedLuminance = bw_cell intensityLevel method ca inputR inputG inputB
         in (Fin mappedLuminance, Fin mappedLuminance, Fin mappedLuminance))
      else colour_cell intensityLevel ca tr inputR inputG inputB)"

definition final_clamp :: "jsnum \<times> jsnum \<times> jsnum \<Rightarrow> jsnum \<times> jsnum \<times> jsnum" where
  "final_clamp out =
     (case out of (outputR, outputG, outputB) \<Rightarrow>
        (js_clamp01 outputR, js_clamp01 outputG, js_clamp01 outputB))"

text \<open>
  The body of the innermost loop up to the final triplet. The inputs are
  \<open>r / (lutSize - 1)\<close>. For \<open>lutSize = 1\<close> the only lattice point is the origin and its
  inputs are \<open>0 / 0 = NaN\<close>, which every arithmetic step hands on and every guard
  rejects, so the three channels are \<open>NaN\<close>.
\<close>

definition lut_point ::
  "int \<Rightarrow> string \<Rightarrow> combined_analysis \<Rightarrow> transforms \<Rightarrow> nat \<Rightarrow> nat \<Rightarrow> nat \<Rightarrow> nat
     \<Rightarrow> jsnum \<times> jsnum \<times> jsnum" where
  "lut_point intensityLevel method ca tr lutSize r g b =
     (if lutSize \<le> 1 then (NaN, NaN, NaN)
      else final_clamp
             (lut_cell intensityLevel method ca tr
                (real r / (real lutSize - 1))
                (real g / (real lutSize - 1))
                (real b / (real lutSize - 1))))"

section \<open>Formatting\<close>

function show_nat :: "nat \<Rightarrow> string" where
  "show_nat n =
     (if n < 10 then [char_of (48 + n)]
      else show_nat (n div 10) @ [char_of (48 + n mod 10)])"
  by pat_completeness auto
termination
  by (relation "measure id") auto

declare show_nat.simps [simp del]

definition show_int :: "int \<Rightarrow> string" where
  "show_int i = (if i < 0 then ''-'' @ show_nat (nat (- i)) else show_nat (nat i))"

text \<open>
  \<open>v.toFixed(6)\<close>: the nearest multiple of \<open>10^-6\<close>, the larger one on a tie, printed
  with six decimals (for magnitudes below \<open>10^21\<close>, beyond which the source prints an
  exponent).
\<close>

definition toFixed6 :: "jsnum \<Rightarrow> string" where
  "toFixed6 v =
     (case v of
        NaN \<Rightarrow> ''NaN''
      | PInf \<Rightarrow> ''Infinity''
      | NInf \<Rightarrow> ''-Infinity''
      | Fin x \<Rightarrow>
          (let n = nat \<lfloor>\<bar>x\<bar> * 1000000 + 1 / 2\<rfloor>;
               frac = show_nat (n mod 1000000)
           in (if x < 0 then ''-'' else []) @ show_nat (n div 1000000) @ ''.''
              @ replicate (6 - length frac) (CHR ''0'') @ frac))"

definition format_triplet :: "jsnum \<times> jsnum \<times> jsnum \<Rightarrow> string" where
  "format_triplet t =
     (case t of (finalR, finalG, finalB) \<Rightarrow>
        toFixed6 finalR @ '' '' @ toFixed6 finalG @ '' '' @ toFixed6 finalB)"

section \<open>Lattice synthesis: the three loops\<close>

text \<open>
  The loops over \<open>b\<close>, \<open>g\<close> and \<open>r\<close>, each with its counter and the array
  \<open>lutData\<close> that the innermost body extends by one line.
\<close>

function loop_r ::
  "(nat \<Rightarrow> nat \<Rightarrow> nat \<Rightarrow> string) \<Rightarrow> nat \<Rightarrow> nat \<Rightarrow> nat \<Rightarrow> nat \<Rightarrow> string list
     \<Rightarrow> string list" where
  "loop_r line lutSize b g r lutData =
     (if r < lutSize then loop_r line lutSize b g (r + 1) (lutData @ [line r g b])
      else lutData)"
  by pat_completeness auto
termination
  by (relation "measure (\<lambda>(line, lutSize, b, g, r, lutData). lutSize - r)") auto

declare loop_r.simps [simp del]

function loop_g ::
  "(nat \<Rightarrow> nat \<Rightarrow> nat \<Rightarrow> string) \<Rightarrow> nat \<Rightarrow> nat \<Rightarrow> nat \<Rightarrow> string list \<Rightarrow> string list" where
  "loop_g line lutSize b g lutData =
     (if g < lutSize then loop_g line lutSize b (g + 1) (loop_r line lutSize b g 0 lutData)
      else lutData)"
  by pat_completeness auto
termination
  by (relation "measure (\<lambda>(line, lutSize, b, g, lutData). lutSize - g)") auto

declare loop_g.simps [simp del]

function loop_b ::
  "(nat \<Rightarrow> nat \<Rightarrow> nat \<Rightarrow> string) \<Rightarrow> nat \<Rightarrow> nat \<Rightarrow> string list \<Rightarrow> string list" where
  "loop_b line lutSize b lutData =
     (if b < lutSize then loop_b line lutSize (b + 1) (loop_g line lutSize b 0 lutData)
      else lutData)"
  by pat_completeness auto
termination
  by (relation "measure (\<lambda>(line, lutSize, b, lutData). lutSize - b)") auto

declare loop_b.simps [simp del]

definition lut_line ::
  "int \<Rightarrow> string \<Rightarrow> combined_analysis \<Rightarrow> transforms \<Rightarrow> nat \<Rightarrow> nat \<Rightarrow> nat \<Rightarrow> nat \<Rightarrow> string" where
  "lut_line intensityLevel method ca tr lutSize r g b =
     format_triplet (lut_point intensityLevel method ca tr lutSize r g b)"

definition lutData ::
  "int \<Rightarrow> string \<Rightarrow> combined_analysis \<Rightarrow> transforms \<Rightarrow> nat \<Rightarrow> string list" where
  "lutData intensityLevel method ca tr lutSize =
     loop_b (lut_line intensityLevel method ca tr lutSize) lutSize 0 []"

section \<open>The generation run\<close>

text \<open>The settings held in the component state that a run reads.\<close>

record settings =
  intensityLevel :: int
  lutResolution :: nat
  bwConversionMethod :: string
  advancedMode :: bool

text \<open>
  The loop over the reference images: an image whose analysis rejects is logged and
  left out, the others are pushed in order.
\<close>

fun collect_analyses ::
  "(analysis_error + pixel list) list \<Rightarrow> image_analysis list \<Rightarrow> image_analysis list" where
  "collect_analyses [] analyses = analyses"
| "collect_analyses (img # rest) analyses =
     (case analyzeImageAdvanced img of
        Inr analysis \<Rightarrow> collect_analyses rest (analyses @ [analysis])
      | Inl error \<Rightarrow> collect_analyses rest analyses)"

text \<open>The generated file: its title line, the declared size and the data lines.\<close>

record cube_file =
  cube_title :: string
  cube_size :: nat
  cube_lines :: "string list"

fun join_lines :: "string list \<Rightarrow> string" where
  "join_lines [] = []"
| "join_lines [l] = l"
| "join_lines (l # ls) = l @ [CHR 0x0A] @ join_lines ls"

definition cubeContent :: "cube_file \<Rightarrow> string" where
  "cubeContent c =
     ''TITLE '' @ [CHR 0x22] @ cube_title c @ [CHR 0x22, CHR 0x0A]
     @ ''DOMAIN_MIN 0.0 0.0 0.0'' @ [CHR 0x0A]
     @ ''DOMAIN_MAX 1.0 1.0 1.0'' @ [CHR 0x0A]
     @ ''LUT_3D_SIZE '' @ show_nat (cube_size c) @ [CHR 0x0A, CHR 0x0A]
     @ join_lines (cube_lines c)"

text \<open>
  How a run ends: it returns at once when there is no reference image, it throws and
  the handler shows an alert, or it stores the generated file.
\<close>

datatype run_result = NoRun | Alert string | GeneratedLUT cube_file

text \<open>
  \<open>generateAdvancedLUT\<close>. The date \<open>timestamp\<close> comes from the clock, and each
  reference image comes with what loading and decoding it gives. The repository holds
  the component twice; the two copies compute the same and differ in the spelling of the
  title only (\<open>Colour\<close>, \<open>Color\<close>).
\<close>

definition generateAdvancedLUT ::
  "string \<Rightarrow> settings \<Rightarrow> (analysis_error + pixel list) list \<Rightarrow> run_result" where
  "generateAdvancedLUT timestamp cfg referenceImages =
     (if length referenceImages = 0 then NoRun
      else
        (let analyses = collect_analyses referenceImages [] in
         if length analyses = 0 then Alert ''Error generating LUT. Please try again.''
         else
           (let combinedAnalysis = combine_analyses analyses;
                tr = solve_transforms (intensityLevel cfg) combinedAnalysis;
                lutType = (if ca_isBlackAndWhite combinedAnalysis then ''B&W''
                           else ''Colour'');
                intensityLabel = show_int (intensityLevel cfg) @ ''x''
            in GeneratedLUT
                 \<lparr>cube_title = ''Universal '' @ lutType @ '' LUT - '' @ intensityLabel
                                @ '' - '' @ timestamp,
                  cube_size = lutResolution cfg,
                  cube_lines = lutData (intensityLevel cfg) (bwConversionMethod cfg)
                                 combinedAnalysis tr (lutResolution cfg)\<rparr>)))"

section \<open>Auxiliary notions for the proofs\<close>

text \<open>The lines of one row (fixed \<open>g\<close>, \<open>b\<close>) and of one plane (fixed \<open>b\<close>) of the lattice.\<close>

definition row :: "(nat \<Rightarrow> nat \<Rightarrow> nat \<Rightarrow> string) \<Rightarrow> nat \<Rightarrow> nat \<Rightarrow> nat \<Rightarrow> string list" where
  "row line n b g = map (\<lambda>r. line r g b) [0..<n]"

definition plane :: "(nat \<Rightarrow> nat \<Rightarrow> nat \<Rightarrow> string) \<Rightarrow> nat \<Rightarrow> nat \<Rightarrow> string list" where
  "plane line n b = concat (map (row line n b) [0..<n])"

text \<open>
  The transform solver as the specification words it: the clamp, the base intensity and
  the gain of one channel, and what it means for a zone's gains to be solved.
\<close>

definition spec_clamp :: "real \<Rightarrow> real \<Rightarrow> real \<Rightarrow> real" where
  "spec_clamp x lo hi = (if x < lo then lo else if hi < x then hi else x)"

definition spec_baseIntensity :: "int \<Rightarrow> real" where
  "spec_baseIntensity level = 0.5 + (real_of_int level - 1) * 0.25"

definition spec_gain :: "int \<Rightarrow> real \<Rightarrow> real \<Rightarrow> real" where
  "spec_gain level target neutral =
     spec_clamp ((target / neutral - 1) * spec_baseIntensity level + 1) 0.1 3.0"

definition gain_solved :: "int \<Rightarrow> real \<Rightarrow> real \<Rightarrow> real \<Rightarrow> bool" where
  "gain_solved level target neutral gain =
     (neutral \<noteq> 0 \<and> gain = spec_gain level target neutral \<and> 0.1 \<le> gain \<and> gain \<le> 3.0)"

definition zone_solved :: "int \<Rightarrow> rgb \<Rightarrow> rgb \<Rightarrow> rgb \<Rightarrow> bool" where
  "zone_solved level target neutral gains =
     (gain_solved level (rgb_r target) (rgb_r neutral) (rgb_r gains) \<and>
      gain_solved level (rgb_g target) (rgb_g neutral) (rgb_g gains) \<and>
      gain_solved level (rgb_b target) (rgb_b neutral) (rgb_b gains))"

text \<open>The buffers of the reference images that load and decode, in order.\<close>

fun decoded_buffers :: "(analysis_error + pixel list) list \<Rightarrow> pixel list list" where
  "decoded_buffers [] = []"
| "decoded_buffers (Inl e # rest) = decoded_buffers rest"
| "decoded_buffers (Inr data # rest) = data # decoded_buffers rest"

text \<open>The data lines a run emits, if it generates a file.\<close>

definition emitted_lines :: "run_result \<Rightarrow> string list option" where
  "emitted_lines res = (case res of GeneratedLUT c \<Rightarrow> Some (cube_lines c) | _ \<Rightarrow> None)"

text \<open>
  The monochrome detector as the specification words it: every tenth pixel is sampled,
  a pixel is colourful when two of its channels differ by more than 10, and the image
  is black and white when fewer than 5% of the sampled pixels are colourful.
\<close>

definition sampled_pixels :: "pixel list \<Rightarrow> nat list" where
  "sampled_pixels data = filter (\<lambda>p. p mod 10 = 0) [0..<length data]"

definition pixel_colourful :: "pixel \<Rightarrow> bool" where
  "pixel_colourful px =
     (case px of (r, g, b, a) \<Rightarrow>
        max (max \<bar>uint r - uint g\<bar> \<bar>uint g - uint b\<bar>) \<bar>uint r - uint b\<bar> > 10)"

definition colourfulCount :: "pixel list \<Rightarrow> nat" where
  "colourfulCount data =
     length (filter (\<lambda>p. pixel_colourful (data ! p)) (sampled_pixels data))"

definition sampledCount :: "pixel list \<Rightarrow> nat" where
  "sampledCount data = length (sampled_pixels data)"

definition spec_isBlackAndWhite :: "pixel list \<Rightarrow> bool" where
  "spec_isBlackAndWhite data =
     (real (colourfulCount data) / real (sampledCount data) < 0.05)"

text \<open>
  A 512 by 1 colour image with white highlights: white pixels, but for three red ones.
  The detector samples every tenth pixel, among them the red ones (10, 30 and 50); the
  zone sampler samples every sixteenth pixel, all of them white.
\<close>

definition white_and_red :: "pixel list" where
  "white_and_red =
     map (\<lambda>p. if p = 10 \<or> p = 30 \<or> p = 50 then (255, 0, 0, 255) else (255, 255, 255, 255))
       [0..<512]"

text \<open>A pixel with R = G = B, and a flat mid-gray image of 512 by 1 pixels.\<close>

definition gray_pixel :: "pixel \<Rightarrow> bool" where
  "gray_pixel px = (case px of (r, g, b, a) \<Rightarrow> r = g \<and> g = b)"

definition mid_gray_image :: "pixel list" where
  "mid_gray_image = replicate 512 (128, 128, 128, 255)"

text \<open>The samples of a zone after \<open>n\<close> identical pushes.\<close>

definition uniform_zone ::
  "real \<Rightarrow> real \<Rightarrow> real \<Rightarrow> real \<Rightarrow> lab \<Rightarrow> nat \<Rightarrow> zone_samples" where
  "uniform_zone r g b l c n =
     \<lparr>zr = replicate n r, zg = replicate n g, zb = replicate n b,
      zluminance = replicate n l, zlab = replicate n c\<rparr>"

text \<open>
  An output triplet is within a tolerance of the normalised input of its lattice point,
  channel by channel.
\<close>

definition near_identity_at ::
  "real \<Rightarrow> jsnum \<times> jsnum \<times> jsnum \<Rightarrow> nat \<Rightarrow> nat \<Rightarrow> nat \<Rightarrow> nat \<Rightarrow> bool" where
  "near_identity_at tol out lutSize r g b =
     (case out of
        (Fin outR, Fin outG, Fin outB) \<Rightarrow>
          \<bar>outR - real r / (real lutSize - 1)\<bar> < tol \<and>
          \<bar>outG - real g / (real lutSize - 1)\<bar> < tol \<and>
          \<bar>outB - real b / (real lutSize - 1)\<bar> < tol
      | _ \<Rightarrow> False)"

text \<open>
  The number of samples an image has in a zone, the gain that the solver gives a zone
  whose target is 0, and a triplet scaled by a factor.
\<close>

definition zone_count :: "zone_stats option \<Rightarrow> nat" where
  "zone_count zo = (case zo of None \<Rightarrow> 0 | Some z \<Rightarrow> zs_count z)"

definition zero_gain :: "int \<Rightarrow> real" where
  "zero_gain level = spec_clamp (1 - spec_baseIntensity level) 0.1 3.0"

definition scale_rgb :: "real \<Rightarrow> rgb \<Rightarrow> rgb" where
  "scale_rgb k c = \<lparr>rgb_r = rgb_r c * k, rgb_g = rgb_g c * k, rgb_b = rgb_b c * k\<rparr>"

section \<open>The order of the lattice\<close>

lemma loop_r_eq: "loop_r line n b g r acc = acc @ map (\<lambda>r. line r g b) [r..<n]"
proof (induction line n b g r acc rule: loop_r.induct)
  case (1 line lutSize b g r lutData)
  show ?case
  proof (cases "r < lutSize")
    case True
    have "loop_r line lutSize b g r lutData
            = loop_r line lutSize b g (r + 1) (lutData @ [line r g b])"
      using True by (subst loop_r.simps) (simp only: if_True)
    also have "\<dots> = (lutData @ [line r g b]) @ map (\<lambda>r. line r g b) [r + 1..<lutSize]"
      using True by (rule "1.IH")
    also have "\<dots> = lutData @ map (\<lambda>r. line r g b) [r..<lutSize]"
      using True by (simp add: upt_conv_Cons)
    finally show ?thesis .
  next
    case False
    then show ?thesis by (subst loop_r.simps) simp
  qed
qed

lemma loop_g_eq: "loop_g line n b g acc = acc @ concat (map (row line n b) [g..<n])"
proof (induction line n b g acc rule: loop_g.induct)
  case (1 line lutSize b g lutData)
  show ?case
  proof (cases "g < lutSize")
    case True
    have "loop_g line lutSize b g lutData
            = loop_g line lutSize b (g + 1) (loop_r line lutSize b g 0 lutData)"
      using True by (subst loop_g.simps) (simp only: if_True)
    also have "\<dots> = loop_r line lutSize b g 0 lutData
                      @ concat (map (row line lutSize b) [g + 1..<lutSize])"
      using True by (rule "1.IH")
    also have "\<dots> = lutData @ concat (map (row line lutSize b) [g..<lutSize])"
      using True by (simp add: loop_r_eq row_def upt_conv_Cons)
    finally show ?thesis .
  next
    case False
    then show ?thesis by (subst loop_g.simps) simp
  qed
qed

lemma loop_b_eq: "loop_b line n b acc = acc @ concat (map (plane line n) [b..<n])"
proof (induction line n b acc rule: loop_b.induct)
  case (1 line lutSize b lutData)
  show ?case
  proof (cases "b < lutSize")
    case True
    have "loop_b line lutSize b lutData
            = loop_b line lutSize (b + 1) (loop_g line lutSize b 0 lutData)"
      using True by (subst loop_b.simps) (simp only: if_True)
    also have "\<dots> = loop_g line lutSize b 0 lutData
                      @ concat (map (plane line lutSize) [b + 1..<lutSize])"
      using True by (rule "1.IH")
    also have "\<dots> = (lutData @ plane line lutSize b)
                      @ concat (map (plane line lutSize) [b + 1..<lutSize])"
      by (simp only: loop_g_eq plane_def)
    also have "\<dots> = lutData @ concat (map (plane line lutSize) [b..<lutSize])"
      using True by (subst (2) upt_conv_Cons) simp_all
    finally show ?thesis .
  next
    case False
    then show ?thesis by (subst loop_b.simps) simp
  qed
qed

lemma length_concat_uniform:
  "(\<And>i. i < n \<Longrightarrow> length (f i) = m) \<Longrightarrow> length (concat (map f [0..<n])) = n * m"
  by (induction n) simp_all

lemma nth_concat_uniform:
  "(\<And>i. i < n \<Longrightarrow> length (f i) = m) \<Longrightarrow> i < n \<Longrightarrow> j < m
     \<Longrightarrow> concat (map f [0..<n]) ! (i * m + j) = f i ! j"
proof (induction n)
  case 0
  then show ?case by simp
next
  case (Suc n)
  have len: "length (concat (map f [0..<n])) = n * m"
    using Suc.prems(1) by (intro length_concat_uniform) simp
  show ?case
  proof (cases "i < n")
    case True
    have "i * m + j < i * m + m" using Suc.prems(3) by simp
    also have "\<dots> = Suc i * m" by simp
    also have "\<dots> \<le> n * m" using True by (intro mult_le_mono1) simp
    finally have "i * m + j < n * m" .
    then show ?thesis
      using Suc True len by (simp add: nth_append)
  next
    case False
    then have "i = n" using Suc.prems(2) by simp
    then show ?thesis using len by (simp add: nth_append)
  qed
qed

lemma length_row: "length (row line n b g) = n"
  by (simp add: row_def)

lemma length_plane: "length (plane line n b) = n * n"
  unfolding plane_def by (rule length_concat_uniform) (simp add: length_row)

lemma nth_plane: "g < n \<Longrightarrow> r < n \<Longrightarrow> plane line n b ! (g * n + r) = line r g b"
  unfolding plane_def
  using nth_concat_uniform [of n "row line n b" n g r]
  by (simp add: length_row row_def)

lemma loops_length: "length (loop_b line n 0 []) = n ^ 3"
proof -
  have "length (concat (map (plane line n) [0..<n])) = n * (n * n)"
    by (rule length_concat_uniform) (simp add: length_plane)
  then show ?thesis by (simp add: loop_b_eq power3_eq_cube)
qed

lemma loops_nth:
  assumes "r < n" "g < n" "b < n"
  shows "loop_b line n 0 [] ! (b * n\<^sup>2 + g * n + r) = line r g b"
proof -
  have gn: "g * n + r < n * n"
  proof -
    have "g * n + r < g * n + n" using assms(1) by simp
    also have "\<dots> = Suc g * n" by simp
    also have "\<dots> \<le> n * n" using assms(2) by (intro mult_le_mono1) simp
    finally show ?thesis .
  qed
  have idx: "b * n\<^sup>2 + g * n + r = b * (n * n) + (g * n + r)"
    by (simp only: power2_eq_square add.assoc)
  have len: "\<And>i. i < n \<Longrightarrow> length (plane line n i) = n * n"
    by (simp only: length_plane)
  have "loop_b line n 0 [] ! (b * n\<^sup>2 + g * n + r)
          = concat (map (plane line n) [0..<n]) ! (b * (n * n) + (g * n + r))"
    by (simp only: loop_b_eq idx append_Nil)
  also have "\<dots> = plane line n b ! (g * n + r)"
    using len assms(3) gn by (rule nth_concat_uniform)
  also have "\<dots> = line r g b"
    using assms(2) assms(1) by (rule nth_plane)
  finally show ?thesis .
qed

text \<open>
  C1. For a resolution of at least 2, the run emits exactly \<open>resolution^3\<close> lines, and
  the line at position \<open>b * resolution^2 + g * resolution + r\<close> is the triplet of the
  lattice point \<open>(r, g, b)\<close>, computed from the normalised input
  \<open>(r, g, b) / (resolution - 1)\<close>: blue is the outermost loop, green the middle one and
  red varies fastest.
\<close>

theorem lattice_order:
  assumes "2 \<le> lutSize"
  shows "length (lutData level method ca tr lutSize) = lutSize ^ 3 \<and>
         (\<forall>b<lutSize. \<forall>g<lutSize. \<forall>r<lutSize.
            lutData level method ca tr lutSize ! (b * lutSize\<^sup>2 + g * lutSize + r)
              = format_triplet (final_clamp (lut_cell level method ca tr
                  (real r / (real lutSize - 1)) (real g / (real lutSize - 1))
                  (real b / (real lutSize - 1)))))"
proof (intro conjI allI impI)
  show "length (lutData level method ca tr lutSize) = lutSize ^ 3"
    unfolding lutData_def by (rule loops_length)
next
  fix b g r
  assume "b < lutSize" "g < lutSize" "r < lutSize"
  then have "lutData level method ca tr lutSize ! (b * lutSize\<^sup>2 + g * lutSize + r)
               = lut_line level method ca tr lutSize r g b"
    unfolding lutData_def by (intro loops_nth)
  also have "\<dots> = format_triplet (final_clamp (lut_cell level method ca tr
                  (real r / (real lutSize - 1)) (real g / (real lutSize - 1))
                  (real b / (real lutSize - 1))))"
    using assms by (simp only: lut_line_def lut_point_def) simp
  finally show "lutData level method ca tr lutSize ! (b * lutSize\<^sup>2 + g * lutSize + r)
              = format_triplet (final_clamp (lut_cell level method ca tr
                  (real r / (real lutSize - 1)) (real g / (real lutSize - 1))
                  (real b / (real lutSize - 1))))" .
qed

theorem lattice_order_witness:
  "(2::nat) \<le> 2 \<and>
   length (lutData 1 ''luminance'' (initial_analysis False)
             (solve_transforms 1 (initial_analysis False)) 2) = 2 ^ 3 \<and>
   lutData 1 ''luminance'' (initial_analysis False)
       (solve_transforms 1 (initial_analysis False)) 2 ! (1 * 2\<^sup>2 + 0 * 2 + 1)
     = format_triplet (final_clamp (lut_cell 1 ''luminance'' (initial_analysis False)
         (solve_transforms 1 (initial_analysis False))
         (real 1 / (real (2::nat) - 1)) (real 0 / (real (2::nat) - 1))
         (real 1 / (real (2::nat) - 1))))"
proof -
  have h: "(2::nat) \<le> 2" by simp
  note t = lattice_order [OF h, of 1 "''luminance''" "initial_analysis False"
      "solve_transforms 1 (initial_analysis False)"]
  have b: "(1::nat) < 2" and g: "(0::nat) < 2" by simp_all
  show ?thesis
    by (intro conjI h t [THEN conjunct1] t [THEN conjunct2, rule_format, OF b g b])
qed

section \<open>The global shift\<close>

lemma globalStats_foldl_accumulate:
  "globalStats (foldl accumulate ca analyses) = globalStats ca"
  by (induction analyses arbitrary: ca) (simp_all add: accumulate_def)

lemma globalStats_combine:
  "globalStats (combine_analyses analyses)
     = \<lparr>contrast = 0.5, saturation = 0.5, colorTemperature = 0, tint = 0\<rparr>"
  by (simp add: combine_analyses_def aggregate_def Let_def globalStats_foldl_accumulate
      initial_analysis_def)

text \<open>
  C10. The combined analysis always carries \<open>colorTemperature = 0\<close> and \<open>tint = 0\<close>,
  so for every intensity level both shifts are 0 and the global shift step of the colour
  branch returns the running triplet unchanged.
\<close>

theorem global_shift_identity:
  "temperatureShift level (combine_analyses analyses) = 0 \<and>
   tintShift level (combine_analyses analyses) = 0 \<and>
   global_shift (temperatureShift level (combine_analyses analyses))
     (tintShift level (combine_analyses analyses)) out = out"
  by (simp add: temperatureShift_def tintShift_def globalStats_combine global_shift_def)

section \<open>The transform gains\<close>

lemma clamp_is_spec_clamp: "min hi (max lo x) = spec_clamp x lo hi" if "lo \<le> hi" for x :: real
  using that by (simp add: spec_clamp_def min_def max_def)

lemma gain_channel_solved:
  assumes "neutral \<noteq> 0"
  shows "gain_solved level target neutral
           (min 3.0 (max 0.1 ((target / neutral - 1)
              * (0.5 + (real_of_int level - 1) * 0.25) + 1)))"
proof -
  let ?x = "(target / neutral - 1) * (0.5 + (real_of_int level - 1) * 0.25) + 1"
  have "min 3.0 (max 0.1 ?x) = spec_clamp ?x 0.1 3.0"
    by (rule clamp_is_spec_clamp) simp
  moreover have "0.1 \<le> min 3.0 (max 0.1 ?x)" "min 3.0 (max 0.1 ?x) \<le> 3.0"
    by simp_all
  ultimately show ?thesis
    using assms unfolding gain_solved_def spec_gain_def spec_baseIntensity_def by blast
qed

lemma calculateTransform_solved:
  assumes "rgb_r neutral \<noteq> 0" "rgb_g neutral \<noteq> 0" "rgb_b neutral \<noteq> 0"
  shows "zone_solved level target neutral (calculateTransform level neutral target)"
  unfolding zone_solved_def calculateTransform_def Let_def rgb.simps
  by (intro conjI gain_channel_solved assms)

text \<open>
  C8. For each zone and each channel the solved gain is
  \<open>clamp((target / neutral - 1) * baseIntensity + 1, 0.1, 3.0)\<close> with
  \<open>baseIntensity = 0.5 + (intensityLevel - 1) * 0.25\<close> and \<open>neutral\<close> the (non-zero)
  component of the camera profile for that zone, and it lies in \<open>[0.1, 3.0]\<close>, for every
  intensity level and every aggregated target.
\<close>

theorem transform_gains:
  "zone_solved level (cz_rgb (ca_shadows ca)) (shadows_lift universalCameraProfile)
     (t_shadows (solve_transforms level ca)) \<and>
   zone_solved level (cz_rgb (ca_midtones ca)) (midtones_gamma universalCameraProfile)
     (t_midtones (solve_transforms level ca)) \<and>
   zone_solved level (cz_rgb (ca_highlights ca)) (highlights_gain universalCameraProfile)
     (t_highlights (solve_transforms level ca))"
  by (simp add: solve_transforms_def calculateTransform_solved universalCameraProfile_def)

section \<open>The batch flag: auxiliary facts\<close>

lemma isBW_foldl_accumulate:
  "ca_isBlackAndWhite (foldl accumulate ca analyses) = ca_isBlackAndWhite ca"
  by (induction analyses arbitrary: ca) (simp_all add: accumulate_def)

lemma isBW_combine:
  "ca_isBlackAndWhite (combine_analyses analyses) = list_ex isBlackAndWhite analyses"
  by (simp add: combine_analyses_def aggregate_def Let_def isBW_foldl_accumulate
      initial_analysis_def)

section \<open>Failing images\<close>

lemma collect_analyses_eq:
  "collect_analyses imgs acc = acc @ map analyse_buffer (decoded_buffers imgs)"
  by (induction imgs arbitrary: acc rule: decoded_buffers.induct)
     (simp_all add: analyzeImageAdvanced_def)

lemma decoded_buffers_empty: "decoded_buffers imgs = [] \<longleftrightarrow> (\<forall>img\<in>set imgs. isl img)"
  by (induction imgs rule: decoded_buffers.induct) simp_all

text \<open>
  C9. An image whose analysis rejects is left out and the others are analysed, in order;
  a run on at least one reference image ends with the alert exactly when every image
  failed, and generates a file exactly when at least one image was analysed.
\<close>

theorem batch_failure:
  assumes "referenceImages \<noteq> []"
  shows "collect_analyses referenceImages [] = map analyse_buffer (decoded_buffers referenceImages) \<and>
         (generateAdvancedLUT timestamp cfg referenceImages
            = Alert ''Error generating LUT. Please try again.''
          \<longleftrightarrow> (\<forall>img\<in>set referenceImages. isl img)) \<and>
         ((\<exists>c. generateAdvancedLUT timestamp cfg referenceImages = GeneratedLUT c)
          \<longleftrightarrow> (\<exists>img\<in>set referenceImages. \<not> isl img))"
  using assms decoded_buffers_empty [of referenceImages]
  by (auto simp add: generateAdvancedLUT_def Let_def collect_analyses_eq)

theorem batch_failure_witness:
  "[Inl TimedOut, Inr mid_gray_image, Inl LoadFailed] \<noteq> [] \<and>
   collect_analyses [Inl TimedOut, Inr mid_gray_image, Inl LoadFailed] []
     = [analyse_buffer mid_gray_image] \<and>
   generateAdvancedLUT ''2024-01-01''
       \<lparr>intensityLevel = 3, lutResolution = 17, bwConversionMethod = ''luminance'',
        advancedMode = True\<rparr>
       [Inl TimedOut, Inr mid_gray_image, Inl LoadFailed]
     \<noteq> Alert ''Error generating LUT. Please try again.'' \<and>
   (\<exists>c. generateAdvancedLUT ''2024-01-01''
       \<lparr>intensityLevel = 3, lutResolution = 17, bwConversionMethod = ''luminance'',
        advancedMode = True\<rparr>
       [Inl TimedOut, Inr mid_gray_image, Inl LoadFailed] = GeneratedLUT c)"
proof -
  let ?imgs = "[Inl TimedOut, Inr mid_gray_image, Inl LoadFailed]
                 :: (analysis_error + pixel list) list"
  have ne: "?imgs \<noteq> []" by simp
  note t = batch_failure [OF ne, of "''2024-01-01''"
      "\<lparr>intensityLevel = 3, lutResolution = 17, bwConversionMethod = ''luminance'',
        advancedMode = True\<rparr>"]
  have some: "\<exists>img\<in>set ?imgs. \<not> isl img" by simp
  have dec: "decoded_buffers ?imgs = [mid_gray_image]" by simp
  from t have a: "collect_analyses ?imgs [] = [analyse_buffer mid_gray_image]"
    by (simp only: dec list.map)
  from t some show ?thesis using ne a by blast
qed

section \<open>The monochrome detector\<close>

lemma filter_upt_skip:
  assumes "a \<le> b" and "\<And>p. a \<le> p \<Longrightarrow> p < b \<Longrightarrow> \<not> P p"
  shows "filter P [a..<n] = filter P [b..<n]"
proof (cases "b \<le> n")
  case True
  have "[a..<n] = [a..<b] @ [b..<n]"
    using upt_add_eq_append [OF assms(1), of "n - b"] True by simp
  moreover have "filter P [a..<b] = []"
    using assms(2) by (auto simp: filter_empty_conv)
  ultimately show ?thesis by simp
next
  case False
  then have "filter P [a..<n] = []"
    using assms(2) by (auto simp: filter_empty_conv)
  with False show ?thesis by simp
qed

lemma data_at_pixel:
  "data_at data (4 * k) = uint (fst (data ! k))"
  "data_at data (4 * k + 1) = uint (fst (snd (data ! k)))"
  "data_at data (4 * k + 2) = uint (fst (snd (snd (data ! k))))"
proof -
  have d: "(4 * k + 1) div 4 = k" "(4 * k + 2) div 4 = k" by presburger+
  have m: "(4 * k + 1) mod 4 = 1" "(4 * k + 2) mod 4 = 2" by presburger+
  show "data_at data (4 * k) = uint (fst (data ! k))"
    unfolding data_at_def by (simp add: case_prod_beta)
  show "data_at data (4 * k + 1) = uint (fst (snd (data ! k)))"
    unfolding data_at_def d m by (simp add: case_prod_beta)
  show "data_at data (4 * k + 2) = uint (fst (snd (snd (data ! k))))"
    unfolding data_at_def d m by (simp add: case_prod_beta)
qed

lemma colourful_at_pixel:
  assumes "4 dvd i"
  shows "colourful_at data i = pixel_colourful (data ! (i div 4))"
proof -
  from assms obtain k where i: "i = 4 * k" by (auto simp: dvd_def)
  have "colourful_at data (4 * k) = pixel_colourful (data ! k)"
    unfolding colourful_at_def Let_def data_at_pixel pixel_colourful_def
    by (simp add: case_prod_beta)
  then show ?thesis by (simp add: i)
qed

lemma count_colourful_eq:
  "40 dvd i \<Longrightarrow>
   count_colourful data i c
     = c + length (filter (\<lambda>p. pixel_colourful (data ! p))
                    (filter (\<lambda>p. p mod 10 = 0) [i div 4..<length data]))"
proof (induction data i c rule: count_colourful.induct)
  case (1 data i c)
  let ?P = "\<lambda>p::nat. p mod 10 = 0"
  let ?Q = "\<lambda>p. pixel_colourful (data ! p)"
  from "1.prems" obtain k where i: "i = 40 * k" by (auto simp: dvd_def)
  have i4: "i div 4 = 10 * k" "(i + 40) div 4 = 10 * k + 10" by (simp_all add: i)
  show ?case
  proof (cases "i < data_length data")
    case True
    then have lt: "10 * k < length data" by (simp add: data_length_def i)
    have dvd4: "4 dvd i" by (simp add: i)
    have step: "count_colourful data i c
                  = count_colourful data (i + 40) (if colourful_at data i then c + 1 else c)"
      using True by (subst count_colourful.simps) (simp only: if_True)
    have IH: "count_colourful data (i + 40) (if colourful_at data i then c + 1 else c)
                = (if colourful_at data i then c + 1 else c)
                  + length (filter ?Q (filter ?P [10 * k + 10..<length data]))"
      using "1.IH" [OF True] "1.prems" i4 by simp
    have "filter ?P [10 * k..<length data]
            = 10 * k # filter ?P [Suc (10 * k)..<length data]"
      using lt by (simp add: upt_conv_Cons)
    also have "filter ?P [Suc (10 * k)..<length data] = filter ?P [10 * k + 10..<length data]"
      by (rule filter_upt_skip) (simp, presburger)
    finally have split: "filter ?P [10 * k..<length data]
                           = 10 * k # filter ?P [10 * k + 10..<length data]" .
    show ?thesis
      unfolding step IH i4 split
      by (simp add: colourful_at_pixel [OF dvd4] i4)
  next
    case False
    then have "length data \<le> i div 4" by (simp add: data_length_def i)
    moreover have "count_colourful data i c = c"
      using False by (subst count_colourful.simps) simp
    ultimately show ?thesis by simp
  qed
qed

lemma length_every_tenth: "length (filter (\<lambda>p. p mod 10 = 0) [0..<n]) = (n + 9) div 10"
proof (induction n)
  case 0
  then show ?case by simp
next
  case (Suc n)
  have "(Suc n + 9) div 10 = (n + 9) div 10 + (if n mod 10 = 0 then 1 else 0)"
    by presburger
  with Suc show ?case by simp
qed

lemma ratio_test:
  fixes c n :: nat
  assumes "0 < n"
  shows "real c / (real (4 * n) / 40) < 0.05 \<longleftrightarrow> real c / real ((n + 9) div 10) < 0.05"
proof -
  have pos: "0 < (n + 9) div 10" using assms by presburger
  have "real c / (real (4 * n) / 40) < 0.05 \<longleftrightarrow> real (200 * c) < real n"
    using assms by (simp add: field_simps)
  also have "\<dots> \<longleftrightarrow> 200 * c < n" by (simp only: of_nat_less_iff)
  also have "\<dots> \<longleftrightarrow> 20 * c < (n + 9) div 10" by linarith
  also have "\<dots> \<longleftrightarrow> real (20 * c) < real ((n + 9) div 10)" by (simp only: of_nat_less_iff)
  also have "\<dots> \<longleftrightarrow> real c / real ((n + 9) div 10) < 0.05"
    using pos by (simp add: field_simps)
  finally show ?thesis .
qed

lemma white_and_red_length: "length white_and_red = 512"
  by (simp add: white_and_red_def)

lemma white_and_red_nth:
  "p < 512 \<Longrightarrow>
   white_and_red ! p
     = (if p = 10 \<or> p = 30 \<or> p = 50 then (255, 0, 0, 255) else (255, 255, 255, 255))"
  by (simp add: white_and_red_def)

lemma white_and_red_count: "colourfulCount white_and_red = 3"
proof -
  have red: "pixel_colourful (255, 0, 0, 255)" and white: "\<not> pixel_colourful (255, 255, 255, 255)"
    by (simp_all add: pixel_colourful_def)
  have "colourfulCount white_and_red
          = length (filter (\<lambda>p. p mod 10 = 0 \<and> pixel_colourful (white_and_red ! p)) [0..<512])"
    by (simp add: colourfulCount_def sampled_pixels_def white_and_red_length conj_commute)
  also have "\<dots> = card {i. i < 512 \<and> i mod 10 = 0 \<and> pixel_colourful (white_and_red ! i)}"
    by (simp add: length_filter_conv_card cong: conj_cong)
  also have "{i. i < 512 \<and> i mod 10 = 0 \<and> pixel_colourful (white_and_red ! i)} = {10, 30, 50}"
    by (auto simp: white_and_red_nth red white split: if_splits)
  finally show ?thesis by simp
qed

lemma white_and_red_sampled: "sampledCount white_and_red = 52"
  by (simp add: sampledCount_def sampled_pixels_def length_every_tenth white_and_red_length)

text \<open>
  C5. For every non-empty buffer (an \<open>ImageData\<close> is never empty), whatever its
  length, the loop with stride 40 bytes counts exactly the colourful pixels among every
  tenth pixel, and the image is classified black and white if and only if
  \<open>colourfulCount / sampledCount < 0.05\<close>. The source divides by \<open>data.length / 40\<close>,
  which is not the number of sampled pixels when the length is not a multiple of 40; the
  comparison with 0.05 has the same outcome all the same.
\<close>

theorem monochrome_detector:
  assumes "data \<noteq> []"
  shows "count_colourful data 0 0 = colourfulCount data \<and>
         detectBlackAndWhite data = spec_isBlackAndWhite data"
proof -
  have cnt: "count_colourful data 0 0 = colourfulCount data"
    using count_colourful_eq [of 0 data 0]
    by (simp add: colourfulCount_def sampled_pixels_def)
  have n: "0 < length data" using assms by simp
  have "detectBlackAndWhite data
          \<longleftrightarrow> real (colourfulCount data) / (real (4 * length data) / 40) < 0.05"
    using n by (simp add: detectBlackAndWhite_def data_length_def cnt)
  also have "\<dots> \<longleftrightarrow> spec_isBlackAndWhite data"
    unfolding spec_isBlackAndWhite_def sampledCount_def sampled_pixels_def length_every_tenth
    by (rule ratio_test [OF n])
  finally show ?thesis using cnt by simp
qed


theorem monochrome_detector_witness:
  "white_and_red \<noteq> [] \<and> length white_and_red = 512 \<and>
   count_colourful white_and_red 0 0 = 3 \<and> sampledCount white_and_red = 52 \<and>
   \<not> detectBlackAndWhite white_and_red"
proof -
  have ne: "white_and_red \<noteq> []" by (simp add: white_and_red_def)
  note t = monochrome_detector [OF ne]
  have "\<not> spec_isBlackAndWhite white_and_red"
    unfolding spec_isBlackAndWhite_def white_and_red_count white_and_red_sampled by simp
  with t ne show ?thesis
    by (simp add: white_and_red_count white_and_red_sampled white_and_red_length)
qed

section \<open>The analysis of concrete images\<close>

lemma count_colourful_spec: "count_colourful data 0 0 = colourfulCount data"
  using count_colourful_eq [of 0 data 0]
  by (simp add: colourfulCount_def sampled_pixels_def)

lemma detect_iff: "detectBlackAndWhite data \<longleftrightarrow> 200 * colourfulCount data < length data"
proof (cases "data = []")
  case True
  then show ?thesis by (simp add: detectBlackAndWhite_def data_length_def)
next
  case False
  then have n: "0 < length data" by simp
  have "detectBlackAndWhite data
          \<longleftrightarrow> real (colourfulCount data) / (real (4 * length data) / 40) < 0.05"
    using n by (simp add: detectBlackAndWhite_def data_length_def count_colourful_spec)
  also have "\<dots> \<longleftrightarrow> real (200 * colourfulCount data) < real (length data)"
    using n by (simp add: field_simps)
  also have "\<dots> \<longleftrightarrow> 200 * colourfulCount data < length data"
    by (simp only: of_nat_less_iff)
  finally show ?thesis .
qed

lemma gray_not_colourful: "gray_pixel px \<Longrightarrow> \<not> pixel_colourful px"
  by (cases px) (simp add: gray_pixel_def pixel_colourful_def)

lemma gray_colourfulCount:
  assumes "\<forall>px\<in>set data. gray_pixel px"
  shows "colourfulCount data = 0"
proof -
  have "\<not> pixel_colourful (data ! p)" if "p \<in> set (sampled_pixels data)" for p
  proof -
    from that have "p < length data" by (simp add: sampled_pixels_def)
    then have "data ! p \<in> set data" by simp
    with assms show ?thesis by (simp add: gray_not_colourful)
  qed
  then show ?thesis by (simp add: colourfulCount_def filter_empty_conv)
qed

lemma gray_detected:
  assumes "data \<noteq> []" "\<forall>px\<in>set data. gray_pixel px"
  shows "detectBlackAndWhite data"
  using assms by (simp add: detect_iff gray_colourfulCount)

lemma white_and_red_colour: "\<not> detectBlackAndWhite white_and_red"
  by (simp add: detect_iff white_and_red_count white_and_red_length)

lemma sample_loop_uniform:
  assumes "\<And>k. k < data_length data \<Longrightarrow> 64 dvd k \<Longrightarrow> sample_step data k = f"
    and "64 dvd i"
  shows "sample_loop data i st = (f ^^ ((data_length data + 63 - i) div 64)) st"
  using assms
proof (induction data i st rule: sample_loop.induct)
  case (1 data i st)
  note steps = "1.prems"(1) and dvd = "1.prems"(2)
  show ?case
  proof (cases "i < data_length data")
    case True
    have next_dvd: "64 dvd i + 4 * sampleRate"
      using dvd by (simp add: sampleRate_def)
    have "sample_loop data i st
            = sample_loop data (i + 4 * sampleRate) (sample_step data i st)"
      using True by (subst sample_loop.simps) (simp only: if_True)
    also have "\<dots> = (f ^^ ((data_length data + 63 - (i + 4 * sampleRate)) div 64))
                        (sample_step data i st)"
    proof (rule "1.IH" [OF True])
      show "\<And>k. k < data_length data \<Longrightarrow> 64 dvd k \<Longrightarrow> sample_step data k = f"
        by (rule steps)
      show "64 dvd i + 4 * sampleRate" by (rule next_dvd)
    qed
    also have "sample_step data i st = f st"
      using steps [OF True dvd] by simp
    also have "(f ^^ ((data_length data + 63 - (i + 4 * sampleRate)) div 64)) (f st)
                 = (f ^^ Suc ((data_length data + 63 - (i + 4 * sampleRate)) div 64)) st"
      by (simp only: funpow_Suc_right comp_apply)
    also have "Suc ((data_length data + 63 - (i + 4 * sampleRate)) div 64)
                 = (data_length data + 63 - i) div 64"
      using True unfolding sampleRate_def by linarith
    finally show ?thesis .
  next
    case False
    then have "(data_length data + 63 - i) div 64 = 0" by simp
    moreover have "sample_loop data i st = st"
      using False by (subst sample_loop.simps) simp
    ultimately show ?thesis by simp
  qed
qed

lemma push_uniform:
  "push_sample (uniform_zone r g b l c n) r g b l c = uniform_zone r g b l c (Suc n)"
  by (simp add: push_sample_def uniform_zone_def replicate_append_same)

lemma funpow_push_highlights:
  "((\<lambda>st. st\<lparr>s_highlights := push_sample (s_highlights st) r g b l c\<rparr>) ^^ m)
     \<lparr>s_shadows = no_samples, s_midtones = no_samples,
      s_highlights = uniform_zone r g b l c n\<rparr>
   = \<lparr>s_shadows = no_samples, s_midtones = no_samples,
      s_highlights = uniform_zone r g b l c (n + m)\<rparr>"
  by (induction m arbitrary: n) (simp_all add: funpow_swap1 push_uniform)

lemma funpow_push_midtones:
  "((\<lambda>st. st\<lparr>s_midtones := push_sample (s_midtones st) r g b l c\<rparr>) ^^ m)
     \<lparr>s_shadows = no_samples, s_midtones = uniform_zone r g b l c n,
      s_highlights = no_samples\<rparr>
   = \<lparr>s_shadows = no_samples, s_midtones = uniform_zone r g b l c (n + m),
      s_highlights = no_samples\<rparr>"
  by (induction m arbitrary: n) (simp_all add: funpow_swap1 push_uniform)

lemma no_samples_uniform: "no_samples = uniform_zone r g b l c 0"
  by (simp add: no_samples_def uniform_zone_def)

lemma processZone_uniform:
  assumes "0 < n"
  shows "processZone (uniform_zone r g b l c n)
           = Some \<lparr>zs_count = n, zs_rgb = \<lparr>rgb_r = r, rgb_g = g, rgb_b = b\<rparr>,
                   zs_luminance_avg = l, zs_lab = c\<rparr>"
  using assms by (simp add: processZone_def uniform_zone_def sum_list_replicate)

lemma processZone_none: "processZone no_samples = None"
  by (simp add: processZone_def no_samples_def)

lemma sample_step_white:
  assumes "4 dvd k" "data ! (k div 4) = (255, 255, 255, 255)"
  shows "sample_step data k
           = (\<lambda>st. st\<lparr>s_highlights := push_sample (s_highlights st) 1 1 1 1 (rgbToLab 1 1 1)\<rparr>)"
proof -
  from assms(1) obtain j where k: "k = 4 * j" by (auto simp: dvd_def)
  from assms(2) have px: "data ! j = (255, 255, 255, 255)" by (simp add: k)
  show ?thesis
    unfolding k sample_step_def data_at_pixel px Let_def
    by (simp add: rgbToGrayscale_def fun_eq_iff)
qed

lemma sample_step_mid_gray:
  assumes "4 dvd k" "data ! (k div 4) = (128, 128, 128, 255)"
  shows "sample_step data k
           = (\<lambda>st. st\<lparr>s_midtones := push_sample (s_midtones st) (128 / 255) (128 / 255)
                          (128 / 255) (128 / 255)
                          (rgbToLab (128 / 255) (128 / 255) (128 / 255))\<rparr>)"
proof -
  from assms(1) obtain j where k: "k = 4 * j" by (auto simp: dvd_def)
  from assms(2) have px: "data ! j = (128, 128, 128, 255)" by (simp add: k)
  show ?thesis
    unfolding k sample_step_def data_at_pixel px Let_def
    by (simp add: rgbToGrayscale_def fun_eq_iff)
qed

lemma white_and_red_sampling:
  "sample_loop white_and_red 0
     \<lparr>s_shadows = no_samples, s_midtones = no_samples, s_highlights = no_samples\<rparr>
   = \<lparr>s_shadows = no_samples, s_midtones = no_samples,
      s_highlights = uniform_zone 1 1 1 1 (rgbToLab 1 1 1) 32\<rparr>"
proof -
  let ?f = "\<lambda>st. st\<lparr>s_highlights := push_sample (s_highlights st) 1 1 1 1 (rgbToLab 1 1 1)\<rparr>"
  have len: "data_length white_and_red = 2048"
    by (simp add: data_length_def white_and_red_def)
  have steps: "sample_step white_and_red k = ?f" if "k < data_length white_and_red" "64 dvd k" for k
  proof (rule sample_step_white)
    from that(2) obtain j where k: "k = 64 * j" by (auto simp: dvd_def)
    show "4 dvd k" by (simp add: k)
    have "k div 4 = 16 * j" by (simp add: k)
    moreover have "16 * j < 512" using that(1) by (simp add: len k)
    moreover have "16 * j \<noteq> 10" "16 * j \<noteq> 30" "16 * j \<noteq> 50" by presburger+
    ultimately show "white_and_red ! (k div 4) = (255, 255, 255, 255)"
      by (simp add: white_and_red_nth)
  qed
  have "sample_loop white_and_red 0
          \<lparr>s_shadows = no_samples, s_midtones = no_samples,
           s_highlights = uniform_zone 1 1 1 1 (rgbToLab 1 1 1) 0\<rparr>
        = (?f ^^ ((data_length white_and_red + 63 - 0) div 64))
            \<lparr>s_shadows = no_samples, s_midtones = no_samples,
             s_highlights = uniform_zone 1 1 1 1 (rgbToLab 1 1 1) 0\<rparr>"
    by (rule sample_loop_uniform [OF steps]) simp_all
  also have "\<dots> = \<lparr>s_shadows = no_samples, s_midtones = no_samples,
                     s_highlights = uniform_zone 1 1 1 1 (rgbToLab 1 1 1)
                       (0 + (data_length white_and_red + 63 - 0) div 64)\<rparr>"
    by (rule funpow_push_highlights)
  finally show ?thesis
    by (simp add: len no_samples_uniform [of 1 1 1 1 "rgbToLab 1 1 1"])
qed

lemma white_and_red_analysis:
  "isBlackAndWhite (analyse_buffer white_and_red) = False"
  "shadows (analyse_buffer white_and_red) = None"
  "midtones (analyse_buffer white_and_red) = None"
  "highlights (analyse_buffer white_and_red)
     = Some \<lparr>zs_count = 32, zs_rgb = \<lparr>rgb_r = 1, rgb_g = 1, rgb_b = 1\<rparr>,
             zs_luminance_avg = 1, zs_lab = rgbToLab 1 1 1\<rparr>"
  unfolding analyse_buffer_def Let_def white_and_red_sampling
  by (simp_all add: white_and_red_colour processZone_none processZone_uniform)

lemma combine_single:
  "combine_analyses [a]
     = \<lparr>ca_isBlackAndWhite = isBlackAndWhite a,
        ca_shadows = fst (normalise_zone (accumulate_zone zero_zone (shadows a))),
        ca_midtones = fst (normalise_zone (accumulate_zone zero_zone (midtones a))),
        ca_highlights = fst (normalise_zone (accumulate_zone zero_zone (highlights a))),
        globalStats = \<lparr>contrast = 0.5, saturation = 0.5, colorTemperature = 0, tint = 0\<rparr>\<rparr>"
  by (simp add: combine_analyses_def aggregate_def accumulate_def initial_analysis_def Let_def)

lemma absent_zone: "fst (normalise_zone (accumulate_zone zero_zone None)) = zero_zone"
  by (simp add: normalise_zone_def accumulate_zone_def zero_zone_def)

lemma white_and_red_combined:
  "ca_isBlackAndWhite (combine_analyses [analyse_buffer white_and_red]) = False"
  "ca_shadows (combine_analyses [analyse_buffer white_and_red]) = zero_zone"
  "ca_midtones (combine_analyses [analyse_buffer white_and_red]) = zero_zone"
  "cz_rgb (ca_highlights (combine_analyses [analyse_buffer white_and_red]))
     = \<lparr>rgb_r = 1, rgb_g = 1, rgb_b = 1\<rparr>"
  "globalStats (combine_analyses [analyse_buffer white_and_red])
     = \<lparr>contrast = 0.5, saturation = 0.5, colorTemperature = 0, tint = 0\<rparr>"
  unfolding combine_single white_and_red_analysis absent_zone
  by (simp_all add: normalise_zone_def accumulate_zone_def zero_zone_def)

lemma strength_not_integer: "(59 / 50 :: real) \<notin> \<int>"
proof
  assume "(59 / 50 :: real) \<in> \<int>"
  then obtain k :: int where k: "(59 / 50 :: real) = of_int k" by (rule Ints_cases)
  then have "real_of_int 59 = real_of_int (50 * k)" by simp
  then have "(59 :: int) = 50 * k" by (simp only: of_int_eq_iff)
  then show False by presburger
qed

lemma scurve_above_one:
  assumes "1 < v"
  shows "applySCurve v (59 / 50) = NaN"
proof -
  have "(1 - v) * 2 < 0" using assms by simp
  then have "js_pow ((1 - v) * 2) (59 / 50) = NaN"
    using strength_not_integer by (simp add: js_pow_def)
  moreover have "\<not> v < 0.5" using assms by simp
  ultimately show ?thesis by (simp add: applySCurve_def)
qed

lemma white_corner_blend:
  "colour_blends 3 (combine_analyses [analyse_buffer white_and_red])
     (solve_transforms 3 (combine_analyses [analyse_buffer white_and_red]))
     \<lparr>rgb_r = 1, rgb_g = 1, rgb_b = 1\<rparr>
   = \<lparr>rgb_r = 3881 / 3800, rgb_g = 3881 / 3800, rgb_b = 3881 / 3800\<rparr>"
proof -
  have w: "colour_weights (rgbToGrayscale 1 1 1 ''luminance'') = (0, 0, 1)"
    by (simp add: colour_weights_def rgbToGrayscale_def Let_def)
  have g: "t_highlights (solve_transforms 3 (combine_analyses [analyse_buffer white_and_red]))
             = \<lparr>rgb_r = 20 / 19, rgb_g = 20 / 19, rgb_b = 20 / 19\<rparr>"
    by (simp add: solve_transforms_def white_and_red_combined calculateTransform_def
        universalCameraProfile_def Let_def)
  show ?thesis
    unfolding colour_blends_def Let_def rgb.simps w g white_and_red_combined
    by (simp add: shadow_blend_def midtone_blend_def highlight_blend_def mix_def)
qed

lemma white_corner_cell:
  "colour_cell 3 (combine_analyses [analyse_buffer white_and_red])
     (solve_transforms 3 (combine_analyses [analyse_buffer white_and_red])) 1 1 1
   = (NaN, NaN, NaN)"
proof -
  have one: "(1::real) < 3881 / 3800" by simp
  have cb: "contrastBoost 3 (combine_analyses [analyse_buffer white_and_red]) = 59 / 50"
    by (simp add: contrastBoost_def white_and_red_combined)
  have sat: "saturate boost \<lparr>rgb_r = v, rgb_g = v, rgb_b = v\<rparr>
               = \<lparr>rgb_r = v, rgb_g = v, rgb_b = v\<rparr>" for boost v
    by (simp add: saturate_def rgbToGrayscale_def Let_def algebra_simps)
  have m: "apply_matrix (colorMatrix universalCameraProfile) out = out" for out
    by (simp add: apply_matrix_def universalCameraProfile_def)
  have sh: "global_shift (temperatureShift 3 (combine_analyses [analyse_buffer white_and_red]))
              (tintShift 3 (combine_analyses [analyse_buffer white_and_red])) out = out" for out
    by (simp add: global_shift_def temperatureShift_def tintShift_def white_and_red_combined)
  show ?thesis
    unfolding colour_cell_def Let_def white_corner_blend m sh sat cb
    by (simp add: contrast_curve_def scurve_above_one [OF one])
qed


section \<open>The range of the output\<close>

lemma collect_single: "collect_analyses [Inr data] [] = [analyse_buffer data]"
  by (simp add: analyzeImageAdvanced_def)

text \<open>
  C7. Every emitted channel is meant to lie in \<open>[0, 1]\<close>, and the final clamp is there
  for it. In the colour branch the contrast curve raises a negative base to a fractional
  power as soon as a channel has left \<open>[0, 1]\<close>, and the clamp hands \<open>NaN\<close> on: for
  the colour image \<open>white_and_red\<close>, at intensity 3 and resolution 33, the last lattice
  point (white input) is \<open>NaN\<close> in its three channels and the line emitted for it is
  \<open>NaN NaN NaN\<close>.
\<close>

theorem white_corner_not_clamped:
  "lut_point 3 ''luminance'' (combine_analyses (collect_analyses [Inr white_and_red] []))
     (solve_transforms 3 (combine_analyses (collect_analyses [Inr white_and_red] [])))
     33 32 32 32 = (NaN, NaN, NaN) \<and>
   map_option (\<lambda>lines. lines ! 35936)
     (emitted_lines (generateAdvancedLUT ''2024-01-01''
        \<lparr>intensityLevel = 3, lutResolution = 33, bwConversionMethod = ''luminance'',
         advancedMode = True\<rparr> [Inr white_and_red]))
   = Some ''NaN NaN NaN''"
proof -
  let ?ca = "combine_analyses [analyse_buffer white_and_red]"
  let ?tr = "solve_transforms 3 ?ca"
  have p: "lut_point 3 ''luminance'' ?ca ?tr 33 32 32 32 = (NaN, NaN, NaN)"
    by (simp add: lut_point_def lut_cell_def white_and_red_combined white_corner_cell
        final_clamp_def)
  have "lutData 3 ''luminance'' ?ca ?tr 33 ! (32 * 33\<^sup>2 + 32 * 33 + 32)
          = lut_line 3 ''luminance'' ?ca ?tr 33 32 32 32"
    unfolding lutData_def by (rule loops_nth) simp_all
  then have l: "lutData 3 ''luminance'' ?ca ?tr 33 ! 35936 = ''NaN NaN NaN''"
    by (simp add: lut_line_def p format_triplet_def toFixed6_def)
  have "emitted_lines (generateAdvancedLUT ''2024-01-01''
        \<lparr>intensityLevel = 3, lutResolution = 33, bwConversionMethod = ''luminance'',
         advancedMode = True\<rparr> [Inr white_and_red])
          = Some (lutData 3 ''luminance'' ?ca ?tr 33)"
    unfolding generateAdvancedLUT_def collect_single
    by (simp add: emitted_lines_def Let_def)
  with p l show ?thesis unfolding collect_single by simp
qed

section \<open>A flat gray reference image\<close>

lemma bw_cell_unit: "0 \<le> bw_cell level method ca inputR inputG inputB"
  "bw_cell level method ca inputR inputG inputB \<le> 1"
  by (simp_all add: bw_cell_def Let_def case_prod_beta)

lemma analysis_flag: "isBlackAndWhite (analyse_buffer data) = detectBlackAndWhite data"
  by (simp add: analyse_buffer_def Let_def)

lemma gray_batch_point:
  assumes "data \<noteq> []" "\<forall>px\<in>set data. gray_pixel px" "2 \<le> lutSize"
  shows "lut_point level method (combine_analyses [analyse_buffer data]) tr lutSize r g b
           = (Fin (bw_cell level method (combine_analyses [analyse_buffer data])
                     (real r / (real lutSize - 1)) (real g / (real lutSize - 1))
                     (real b / (real lutSize - 1))),
              Fin (bw_cell level method (combine_analyses [analyse_buffer data])
                     (real r / (real lutSize - 1)) (real g / (real lutSize - 1))
                     (real b / (real lutSize - 1))),
              Fin (bw_cell level method (combine_analyses [analyse_buffer data])
                     (real r / (real lutSize - 1)) (real g / (real lutSize - 1))
                     (real b / (real lutSize - 1))))"
proof -
  have "ca_isBlackAndWhite (combine_analyses [analyse_buffer data])"
    using gray_detected [OF assms(1,2)] by (simp add: isBW_combine analysis_flag)
  then show ?thesis
    using assms(3) bw_cell_unit [of _ _ "combine_analyses [analyse_buffer data]"]
    by (simp add: lut_point_def lut_cell_def Let_def final_clamp_def)
qed

text \<open>
  C3, as amended. A batch of one flat gray reference image (every pixel with
  \<open>R = G = B\<close>) is classified black and white, so at every intensity level the
  synthesizer takes the monochrome branch: at every lattice point the three output
  channels are one and the same value of \<open>[0, 1]\<close>.
\<close>

theorem gray_image_lut:
  assumes "data \<noteq> []" "\<forall>px\<in>set data. gray_pixel px" "2 \<le> lutSize"
  shows "isBlackAndWhite (analyse_buffer data) \<and>
         (\<exists>v. lut_point level method (combine_analyses (collect_analyses [Inr data] [])) tr
                 lutSize r g b = (Fin v, Fin v, Fin v) \<and> 0 \<le> v \<and> v \<le> 1)"
  unfolding collect_single gray_batch_point [OF assms]
  using gray_detected [OF assms(1,2)] bw_cell_unit
  by (simp add: analysis_flag)

lemma mid_gray_is_gray: "mid_gray_image \<noteq> []" "\<forall>px\<in>set mid_gray_image. gray_pixel px"
  by (simp_all add: mid_gray_image_def gray_pixel_def)

text \<open>
  C3, as stated, fails: for the flat mid-gray image at intensity 1 and resolution 17, the
  output at the lattice point of pure red (input \<open>(1, 0, 0)\<close>) is not within 0.05 of
  its input.
\<close>

theorem gray_image_not_identity:
  "\<not> near_identity_at 0.05
       (lut_point 1 ''luminance'' (combine_analyses (collect_analyses [Inr mid_gray_image] []))
          (solve_transforms 1 (combine_analyses (collect_analyses [Inr mid_gray_image] [])))
          17 16 0 0)
       17 16 0 0"
proof -
  have n: "(2::nat) \<le> 17" by simp
  show ?thesis
    unfolding collect_single gray_batch_point [OF mid_gray_is_gray n] near_identity_at_def
    by (simp add: abs_if)
qed

theorem gray_image_lut_witness:
  "mid_gray_image \<noteq> [] \<and> (2::nat) \<le> 17 \<and>
   isBlackAndWhite (analyse_buffer mid_gray_image) \<and>
   (\<exists>v. lut_point 1 ''luminance'' (combine_analyses (collect_analyses [Inr mid_gray_image] []))
          (solve_transforms 1 (combine_analyses (collect_analyses [Inr mid_gray_image] [])))
          17 16 0 0 = (Fin v, Fin v, Fin v) \<and> 0 \<le> v \<and> v \<le> 1)"
proof -
  have n: "(2::nat) \<le> 17" by simp
  note t = gray_image_lut [OF mid_gray_is_gray n, of 1 "''luminance''"
      "solve_transforms 1 (combine_analyses (collect_analyses [Inr mid_gray_image] []))" 16 0 0]
  from t n mid_gray_is_gray(1) show ?thesis by blast
qed

section \<open>The batch flag\<close>

text \<open>
  C6. The flag of the combined analysis is the disjunction of the flags of the analysed
  images; when one of them is monochrome the synthesizer takes the monochrome branch at
  every lattice point: the three channels are the mapped luminance.
\<close>

theorem batch_flag_is_or:
  "ca_isBlackAndWhite (combine_analyses analyses) = (\<exists>a\<in>set analyses. isBlackAndWhite a) \<and>
   ((\<exists>a\<in>set analyses. isBlackAndWhite a) \<longrightarrow>
      lut_cell level method (combine_analyses analyses) tr inputR inputG inputB
        = (Fin (bw_cell level method (combine_analyses analyses) inputR inputG inputB),
           Fin (bw_cell level method (combine_analyses analyses) inputR inputG inputB),
           Fin (bw_cell level method (combine_analyses analyses) inputR inputG inputB)))"
  by (simp add: isBW_combine list_ex_iff lut_cell_def Let_def)

theorem batch_flag_is_or_witness:
  "(\<exists>a\<in>set [analyse_buffer mid_gray_image, analyse_buffer white_and_red].
      isBlackAndWhite a) \<and>
   \<not> isBlackAndWhite (analyse_buffer white_and_red) \<and>
   ca_isBlackAndWhite
     (combine_analyses [analyse_buffer mid_gray_image, analyse_buffer white_and_red]) \<and>
   lut_cell 3 ''red''
     (combine_analyses [analyse_buffer mid_gray_image, analyse_buffer white_and_red])
     (solve_transforms 3
        (combine_analyses [analyse_buffer mid_gray_image, analyse_buffer white_and_red]))
     1 0 0
   = (Fin (bw_cell 3 ''red''
        (combine_analyses [analyse_buffer mid_gray_image, analyse_buffer white_and_red])
        1 0 0),
      Fin (bw_cell 3 ''red''
        (combine_analyses [analyse_buffer mid_gray_image, analyse_buffer white_and_red])
        1 0 0),
      Fin (bw_cell 3 ''red''
        (combine_analyses [analyse_buffer mid_gray_image, analyse_buffer white_and_red])
        1 0 0))"
proof -
  let ?as = "[analyse_buffer mid_gray_image, analyse_buffer white_and_red]"
  have "isBlackAndWhite (analyse_buffer mid_gray_image)"
    using gray_detected [OF mid_gray_is_gray] by (simp add: analysis_flag)
  then have ex: "\<exists>a\<in>set ?as. isBlackAndWhite a" by simp
  have colour: "\<not> isBlackAndWhite (analyse_buffer white_and_red)"
    by (simp add: white_and_red_analysis)
  note t = batch_flag_is_or [of ?as 3 "''red''" "solve_transforms 3 (combine_analyses ?as)" 1 0 0]
  from t ex have flag: "ca_isBlackAndWhite (combine_analyses ?as)" by blast
  from t ex colour flag show ?thesis by blast
qed

section \<open>Zones without samples\<close>

lemma accumulate_zone_weight:
  "cz_weight (accumulate_zone cz zo) = cz_weight cz + zone_count zo"
  by (cases zo) (simp_all add: accumulate_zone_def zone_count_def Let_def)

lemma accumulate_zone_zero:
  assumes "cz_weight (accumulate_zone cz zo) = 0"
  shows "accumulate_zone cz zo = cz"
  using assms by (cases zo) (auto simp: accumulate_zone_def Let_def split: if_splits)

lemma foldl_accumulate_zone_weight:
  "cz_weight (foldl accumulate_zone cz zs) = cz_weight cz + sum_list (map zone_count zs)"
  by (induction zs arbitrary: cz) (simp_all add: accumulate_zone_weight)

lemma foldl_accumulate_zone_zero:
  "cz_weight (foldl accumulate_zone cz zs) = 0 \<Longrightarrow> foldl accumulate_zone cz zs = cz"
proof (induction zs arbitrary: cz)
  case Nil
  then show ?case by simp
next
  case (Cons zo zs)
  from Cons.prems have w: "cz_weight (foldl accumulate_zone (accumulate_zone cz zo) zs) = 0"
    by simp
  then have "foldl accumulate_zone (accumulate_zone cz zo) zs = accumulate_zone cz zo"
    by (rule Cons.IH)
  moreover from this w have "cz_weight (accumulate_zone cz zo) = 0" by simp
  then have "accumulate_zone cz zo = cz" by (rule accumulate_zone_zero)
  ultimately show ?case by simp
qed

lemma foldl_accumulate_zones:
  "ca_shadows (foldl accumulate ca analyses)
     = foldl accumulate_zone (ca_shadows ca) (map shadows analyses)"
  "ca_midtones (foldl accumulate ca analyses)
     = foldl accumulate_zone (ca_midtones ca) (map midtones analyses)"
  "ca_highlights (foldl accumulate ca analyses)
     = foldl accumulate_zone (ca_highlights ca) (map highlights analyses)"
  by (induction analyses arbitrary: ca) (simp_all add: accumulate_def)

lemma combined_zones:
  "ca_shadows (combine_analyses analyses)
     = fst (normalise_zone (foldl accumulate_zone zero_zone (map shadows analyses)))"
  "ca_midtones (combine_analyses analyses)
     = fst (normalise_zone (foldl accumulate_zone zero_zone (map midtones analyses)))"
  "ca_highlights (combine_analyses analyses)
     = fst (normalise_zone (foldl accumulate_zone zero_zone (map highlights analyses)))"
  by (simp_all add: combine_analyses_def aggregate_def Let_def foldl_accumulate_zones
      initial_analysis_def)

lemma combined_divisors:
  "dv_shadows (aggregation_divisors analyses)
     = snd (normalise_zone (foldl accumulate_zone zero_zone (map shadows analyses)))"
  "dv_midtones (aggregation_divisors analyses)
     = snd (normalise_zone (foldl accumulate_zone zero_zone (map midtones analyses)))"
  "dv_highlights (aggregation_divisors analyses)
     = snd (normalise_zone (foldl accumulate_zone zero_zone (map highlights analyses)))"
  by (simp_all add: aggregation_divisors_def aggregate_def Let_def foldl_accumulate_zones
      initial_analysis_def)

lemma normalise_zone_weight: "cz_weight (fst (normalise_zone cz)) = cz_weight cz"
  by (simp add: normalise_zone_def Let_def)

lemma normalise_zone_divisors:
  "snd (normalise_zone cz)
     = (if 0 < cz_weight (fst (normalise_zone cz))
        then replicate 7 (cz_weight (fst (normalise_zone cz))) else [])"
  by (simp add: normalise_zone_def Let_def)

lemma normalised_zero:
  assumes "cz_weight (fst (normalise_zone (foldl accumulate_zone zero_zone zs))) = 0"
  shows "fst (normalise_zone (foldl accumulate_zone zero_zone zs)) = zero_zone"
    and "snd (normalise_zone (foldl accumulate_zone zero_zone zs)) = []"
proof -
  from assms have w: "cz_weight (foldl accumulate_zone zero_zone zs) = 0"
    by (simp only: normalise_zone_weight)
  then have "foldl accumulate_zone zero_zone zs = zero_zone"
    by (rule foldl_accumulate_zone_zero)
  then show "fst (normalise_zone (foldl accumulate_zone zero_zone zs)) = zero_zone"
    and "snd (normalise_zone (foldl accumulate_zone zero_zone zs)) = []"
    by (simp_all add: normalise_zone_def zero_zone_def)
qed

lemma divisors_performed:
  "dv_shadows (aggregation_divisors analyses)
     = (if 0 < cz_weight (ca_shadows (combine_analyses analyses))
        then replicate 7 (cz_weight (ca_shadows (combine_analyses analyses))) else [])"
  "dv_midtones (aggregation_divisors analyses)
     = (if 0 < cz_weight (ca_midtones (combine_analyses analyses))
        then replicate 7 (cz_weight (ca_midtones (combine_analyses analyses))) else [])"
  "dv_highlights (aggregation_divisors analyses)
     = (if 0 < cz_weight (ca_highlights (combine_analyses analyses))
        then replicate 7 (cz_weight (ca_highlights (combine_analyses analyses))) else [])"
  unfolding combined_zones combined_divisors by (rule normalise_zone_divisors)+

lemma divisors_nonzero:
  "0 \<notin> set (dv_shadows (aggregation_divisors analyses))"
  "0 \<notin> set (dv_midtones (aggregation_divisors analyses))"
  "0 \<notin> set (dv_highlights (aggregation_divisors analyses))"
  unfolding divisors_performed by auto

lemma combined_weights:
  "cz_weight (ca_shadows (combine_analyses analyses))
     = sum_list (map (\<lambda>a. zone_count (shadows a)) analyses)"
  "cz_weight (ca_midtones (combine_analyses analyses))
     = sum_list (map (\<lambda>a. zone_count (midtones a)) analyses)"
  "cz_weight (ca_highlights (combine_analyses analyses))
     = sum_list (map (\<lambda>a. zone_count (highlights a)) analyses)"
  by (simp_all add: combined_zones normalise_zone_weight foldl_accumulate_zone_weight
      zero_zone_def comp_def)

lemma zero_target_gain:
  assumes "rgb_r neutral \<noteq> 0" "rgb_g neutral \<noteq> 0" "rgb_b neutral \<noteq> 0"
  shows "calculateTransform level neutral \<lparr>rgb_r = 0, rgb_g = 0, rgb_b = 0\<rparr>
           = \<lparr>rgb_r = zero_gain level, rgb_g = zero_gain level, rgb_b = zero_gain level\<rparr>"
proof -
  have "min 3.0 (max 0.1 ((0 / n - 1) * (0.5 + (real_of_int level - 1) * 0.25) + 1))
          = zero_gain level" for n :: real
    unfolding zero_gain_def spec_baseIntensity_def
    by (subst clamp_is_spec_clamp) simp_all
  then show ?thesis by (simp add: calculateTransform_def Let_def)
qed

lemma zero_zone_gains:
  "ca_shadows ca = zero_zone \<Longrightarrow>
     t_shadows (solve_transforms level ca)
       = \<lparr>rgb_r = zero_gain level, rgb_g = zero_gain level, rgb_b = zero_gain level\<rparr>"
  "ca_midtones ca = zero_zone \<Longrightarrow>
     t_midtones (solve_transforms level ca)
       = \<lparr>rgb_r = zero_gain level, rgb_g = zero_gain level, rgb_b = zero_gain level\<rparr>"
  "ca_highlights ca = zero_zone \<Longrightarrow>
     t_highlights (solve_transforms level ca)
       = \<lparr>rgb_r = zero_gain level, rgb_g = zero_gain level, rgb_b = zero_gain level\<rparr>"
  using zero_target_gain [of "shadows_lift universalCameraProfile" level]
    zero_target_gain [of "midtones_gamma universalCameraProfile" level]
    zero_target_gain [of "highlights_gain universalCameraProfile" level]
  by (simp_all add: solve_transforms_def zero_zone_def universalCameraProfile_def)

lemma zero_zone_blends:
  "shadow_blend bs w \<lparr>rgb_r = k, rgb_g = k, rgb_b = k\<rparr> (cz_rgb zero_zone) inp out
     = (if w > 0 then mix (w powr 0.7 * bs) out (scale_rgb (k * 0.8) inp) else out)"
  "midtone_blend bs w \<lparr>rgb_r = k, rgb_g = k, rgb_b = k\<rparr> inp out
     = (if w > 0 then mix (w powr 0.5 * bs) out (scale_rgb k inp) else out)"
  "highlight_blend bs w \<lparr>rgb_r = k, rgb_g = k, rgb_b = k\<rparr> (cz_rgb zero_zone) inp out
     = (if w > 0 then mix (w powr 0.7 * bs) out (scale_rgb (k * 0.9) inp) else out)"
  by (simp_all add: shadow_blend_def midtone_blend_def highlight_blend_def zero_zone_def
      scale_rgb_def Let_def algebra_simps)

text \<open>
  C2, as amended. The weight of a combined zone is the number of its samples over the
  batch. The aggregation divides a zone of positive weight seven times, by that weight,
  and a zone of weight 0 not at all: no division of the aggregation has the divisor 0,
  and a zone of weight 0 keeps its zero defaults. The colour branch does not skip such a
  zone: where the ramp weight \<open>w\<close> of the zone is positive, the running triplet is mixed,
  with factor \<open>w ^ e * blendStrength\<close>, with the input scaled by the gain of a zero
  target (times 0.8 for the shadows, 0.9 for the highlights).
\<close>

theorem zero_weight_zone:
  "cz_weight (ca_shadows (combine_analyses analyses))
     = sum_list (map (\<lambda>a. zone_count (shadows a)) analyses) \<and>
   cz_weight (ca_midtones (combine_analyses analyses))
     = sum_list (map (\<lambda>a. zone_count (midtones a)) analyses) \<and>
   cz_weight (ca_highlights (combine_analyses analyses))
     = sum_list (map (\<lambda>a. zone_count (highlights a)) analyses) \<and>
   dv_shadows (aggregation_divisors analyses)
     = (if 0 < cz_weight (ca_shadows (combine_analyses analyses))
        then replicate 7 (cz_weight (ca_shadows (combine_analyses analyses))) else []) \<and>
   dv_midtones (aggregation_divisors analyses)
     = (if 0 < cz_weight (ca_midtones (combine_analyses analyses))
        then replicate 7 (cz_weight (ca_midtones (combine_analyses analyses))) else []) \<and>
   dv_highlights (aggregation_divisors analyses)
     = (if 0 < cz_weight (ca_highlights (combine_analyses analyses))
        then replicate 7 (cz_weight (ca_highlights (combine_analyses analyses))) else []) \<and>
   0 \<notin> set (dv_shadows (aggregation_divisors analyses)) \<and>
   0 \<notin> set (dv_midtones (aggregation_divisors analyses)) \<and>
   0 \<notin> set (dv_highlights (aggregation_divisors analyses)) \<and>
   (cz_weight (ca_shadows (combine_analyses analyses)) = 0 \<longrightarrow>
      dv_shadows (aggregation_divisors analyses) = [] \<and>
      ca_shadows (combine_analyses analyses) = zero_zone \<and>
      shadow_blend bs w (t_shadows (solve_transforms level (combine_analyses analyses)))
        (cz_rgb (ca_shadows (combine_analyses analyses))) inp out
        = (if w > 0 then mix (w powr 0.7 * bs) out (scale_rgb (zero_gain level * 0.8) inp)
           else out)) \<and>
   (cz_weight (ca_midtones (combine_analyses analyses)) = 0 \<longrightarrow>
      dv_midtones (aggregation_divisors analyses) = [] \<and>
      ca_midtones (combine_analyses analyses) = zero_zone \<and>
      midtone_blend bs w (t_midtones (solve_transforms level (combine_analyses analyses)))
        inp out
        = (if w > 0 then mix (w powr 0.5 * bs) out (scale_rgb (zero_gain level) inp)
           else out)) \<and>
   (cz_weight (ca_highlights (combine_analyses analyses)) = 0 \<longrightarrow>
      dv_highlights (aggregation_divisors analyses) = [] \<and>
      ca_highlights (combine_analyses analyses) = zero_zone \<and>
      highlight_blend bs w (t_highlights (solve_transforms level (combine_analyses analyses)))
        (cz_rgb (ca_highlights (combine_analyses analyses))) inp out
        = (if w > 0 then mix (w powr 0.7 * bs) out (scale_rgb (zero_gain level * 0.9) inp)
           else out))"
proof (intro conjI impI)
  show "cz_weight (ca_shadows (combine_analyses analyses))
          = sum_list (map (\<lambda>a. zone_count (shadows a)) analyses)"
    and "cz_weight (ca_midtones (combine_analyses analyses))
          = sum_list (map (\<lambda>a. zone_count (midtones a)) analyses)"
    and "cz_weight (ca_highlights (combine_analyses analyses))
          = sum_list (map (\<lambda>a. zone_count (highlights a)) analyses)"
    by (rule combined_weights)+
next
  show "dv_shadows (aggregation_divisors analyses)
     = (if 0 < cz_weight (ca_shadows (combine_analyses analyses))
        then replicate 7 (cz_weight (ca_shadows (combine_analyses analyses))) else [])"
    and "dv_midtones (aggregation_divisors analyses)
     = (if 0 < cz_weight (ca_midtones (combine_analyses analyses))
        then replicate 7 (cz_weight (ca_midtones (combine_analyses analyses))) else [])"
    and "dv_highlights (aggregation_divisors analyses)
     = (if 0 < cz_weight (ca_highlights (combine_analyses analyses))
        then replicate 7 (cz_weight (ca_highlights (combine_analyses analyses))) else [])"
    by (rule divisors_performed)+
next
  show "0 \<notin> set (dv_shadows (aggregation_divisors analyses))"
    and "0 \<notin> set (dv_midtones (aggregation_divisors analyses))"
    and "0 \<notin> set (dv_highlights (aggregation_divisors analyses))"
    by (rule divisors_nonzero)+
next
  assume w: "cz_weight (ca_shadows (combine_analyses analyses)) = 0"
  then show "dv_shadows (aggregation_divisors analyses) = []"
    unfolding combined_zones combined_divisors by (rule normalised_zero)
  from w show z: "ca_shadows (combine_analyses analyses) = zero_zone"
    unfolding combined_zones by (rule normalised_zero)
  show "shadow_blend bs w (t_shadows (solve_transforms level (combine_analyses analyses)))
        (cz_rgb (ca_shadows (combine_analyses analyses))) inp out
        = (if w > 0 then mix (w powr 0.7 * bs) out (scale_rgb (zero_gain level * 0.8) inp)
           else out)"
    unfolding zero_zone_gains(1) [OF z] z by (rule zero_zone_blends)
next
  assume w: "cz_weight (ca_midtones (combine_analyses analyses)) = 0"
  then show "dv_midtones (aggregation_divisors analyses) = []"
    unfolding combined_zones combined_divisors by (rule normalised_zero)
  from w show z: "ca_midtones (combine_analyses analyses) = zero_zone"
    unfolding combined_zones by (rule normalised_zero)
  show "midtone_blend bs w (t_midtones (solve_transforms level (combine_analyses analyses)))
        inp out
        = (if w > 0 then mix (w powr 0.5 * bs) out (scale_rgb (zero_gain level) inp)
           else out)"
    unfolding zero_zone_gains(2) [OF z] by (rule zero_zone_blends)
next
  assume w: "cz_weight (ca_highlights (combine_analyses analyses)) = 0"
  then show "dv_highlights (aggregation_divisors analyses) = []"
    unfolding combined_zones combined_divisors by (rule normalised_zero)
  from w show z: "ca_highlights (combine_analyses analyses) = zero_zone"
    unfolding combined_zones by (rule normalised_zero)
  show "highlight_blend bs w (t_highlights (solve_transforms level (combine_analyses analyses)))
        (cz_rgb (ca_highlights (combine_analyses analyses))) inp out
        = (if w > 0 then mix (w powr 0.7 * bs) out (scale_rgb (zero_gain level * 0.9) inp)
           else out)"
    unfolding zero_zone_gains(3) [OF z] z by (rule zero_zone_blends)
qed

lemma mid_gray_sampling:
  "sample_loop mid_gray_image 0
     \<lparr>s_shadows = no_samples, s_midtones = no_samples, s_highlights = no_samples\<rparr>
   = \<lparr>s_shadows = no_samples,
      s_midtones = uniform_zone (128 / 255) (128 / 255) (128 / 255) (128 / 255)
                     (rgbToLab (128 / 255) (128 / 255) (128 / 255)) 32,
      s_highlights = no_samples\<rparr>"
proof -
  let ?c = "rgbToLab (128 / 255) (128 / 255) (128 / 255)"
  let ?f = "\<lambda>st. st\<lparr>s_midtones := push_sample (s_midtones st) (128 / 255) (128 / 255)
                          (128 / 255) (128 / 255) ?c\<rparr>"
  have len: "data_length mid_gray_image = 2048"
    by (simp add: data_length_def mid_gray_image_def)
  have steps: "sample_step mid_gray_image k = ?f"
    if "k < data_length mid_gray_image" "64 dvd k" for k
  proof (rule sample_step_mid_gray)
    from that(2) obtain j where k: "k = 64 * j" by (auto simp: dvd_def)
    show "4 dvd k" by (simp add: k)
    have "k div 4 < 512" using that(1) by (simp add: len k)
    then show "mid_gray_image ! (k div 4) = (128, 128, 128, 255)"
      by (simp add: mid_gray_image_def)
  qed
  have "sample_loop mid_gray_image 0
          \<lparr>s_shadows = no_samples,
           s_midtones = uniform_zone (128 / 255) (128 / 255) (128 / 255) (128 / 255) ?c 0,
           s_highlights = no_samples\<rparr>
        = (?f ^^ ((data_length mid_gray_image + 63 - 0) div 64))
            \<lparr>s_shadows = no_samples,
             s_midtones = uniform_zone (128 / 255) (128 / 255) (128 / 255) (128 / 255) ?c 0,
             s_highlights = no_samples\<rparr>"
    by (rule sample_loop_uniform [OF steps]) simp_all
  also have "\<dots> = \<lparr>s_shadows = no_samples,
                     s_midtones = uniform_zone (128 / 255) (128 / 255) (128 / 255)
                       (128 / 255) ?c (0 + (data_length mid_gray_image + 63 - 0) div 64),
                     s_highlights = no_samples\<rparr>"
    by (rule funpow_push_midtones)
  finally show ?thesis
    by (simp add: len no_samples_uniform [of "128 / 255" "128 / 255" "128 / 255" "128 / 255" ?c])
qed

lemma mid_gray_combined:
  "ca_shadows (combine_analyses [analyse_buffer mid_gray_image]) = zero_zone"
  "ca_highlights (combine_analyses [analyse_buffer mid_gray_image]) = zero_zone"
proof -
  have "shadows (analyse_buffer mid_gray_image) = None"
    and "highlights (analyse_buffer mid_gray_image) = None"
    unfolding analyse_buffer_def Let_def mid_gray_sampling
    by (simp_all add: processZone_none)
  then show "ca_shadows (combine_analyses [analyse_buffer mid_gray_image]) = zero_zone"
    and "ca_highlights (combine_analyses [analyse_buffer mid_gray_image]) = zero_zone"
    by (simp_all add: combine_single absent_zone)
qed

lemma zero_gain_3: "zero_gain 3 = 0.1"
  by (simp add: zero_gain_def spec_baseIntensity_def spec_clamp_def)

text \<open>
  C2, as stated, fails in both branches. For the colour image \<open>white_and_red\<close> the
  midtones have weight 0, yet at the input \<open>(0.5, 0.5, 0.5)\<close>, where only the midtone
  ramp is positive, the midtone blend changes the running triplet. For the flat gray
  image the highlights have weight 0, yet at the white input, where only the highlight
  ramp is positive, the highlight blend of the monochrome branch changes the running
  value: the test \<open>combinedAnalysis.highlights.luminance\<close> always succeeds.
\<close>

theorem zero_weight_zone_not_skipped:
  "cz_weight (ca_midtones (combine_analyses (collect_analyses [Inr white_and_red] []))) = 0 \<and>
   colour_weights (rgbToGrayscale 0.5 0.5 0.5 ''luminance'') = (0, 1, 0) \<and>
   midtone_blend (real_of_int 3 * 0.15) 1
       (t_midtones (solve_transforms 3
          (combine_analyses (collect_analyses [Inr white_and_red] []))))
       \<lparr>rgb_r = 0.5, rgb_g = 0.5, rgb_b = 0.5\<rparr> \<lparr>rgb_r = 0.5, rgb_g = 0.5, rgb_b = 0.5\<rparr>
     \<noteq> \<lparr>rgb_r = 0.5, rgb_g = 0.5, rgb_b = 0.5\<rparr> \<and>
   colour_blends 3 (combine_analyses (collect_analyses [Inr white_and_red] []))
       (solve_transforms 3 (combine_analyses (collect_analyses [Inr white_and_red] [])))
       \<lparr>rgb_r = 0.5, rgb_g = 0.5, rgb_b = 0.5\<rparr>
     \<noteq> \<lparr>rgb_r = 0.5, rgb_g = 0.5, rgb_b = 0.5\<rparr> \<and>
   cz_weight (ca_highlights (combine_analyses (collect_analyses [Inr mid_gray_image] []))) = 0 \<and>
   bw_weights (rgbToGrayscale 1 1 1 ''luminance'') = (0, 0, 1) \<and>
   bw_zone_blend 1
       (cz_luminance (ca_highlights (combine_analyses (collect_analyses [Inr mid_gray_image] []))))
       0.8 (real_of_int 3 * 0.2) 1
     \<noteq> 1"
proof -
  let ?ca = "combine_analyses [analyse_buffer white_and_red]"
  let ?half = "\<lparr>rgb_r = 0.5, rgb_g = 0.5, rgb_b = 0.5\<rparr> :: rgb"
  have g: "t_midtones (solve_transforms 3 ?ca)
             = \<lparr>rgb_r = 0.1, rgb_g = 0.1, rgb_b = 0.1\<rparr>"
    using zero_zone_gains(2) [OF white_and_red_combined(3), of 3] by (simp add: zero_gain_3)
  have w: "colour_weights (rgbToGrayscale 0.5 0.5 0.5 ''luminance'') = (0, 1, 0)"
    by (simp add: colour_weights_def rgbToGrayscale_def Let_def)
  have m: "midtone_blend (real_of_int 3 * 0.15) 1 (t_midtones (solve_transforms 3 ?ca))
             ?half ?half = \<lparr>rgb_r = 0.2975, rgb_g = 0.2975, rgb_b = 0.2975\<rparr>"
    unfolding g by (simp add: midtone_blend_def mix_def)
  have b: "colour_blends 3 ?ca (solve_transforms 3 ?ca) ?half
             = \<lparr>rgb_r = 0.2975, rgb_g = 0.2975, rgb_b = 0.2975\<rparr>"
    unfolding colour_blends_def Let_def rgb.simps w g
    by (simp add: shadow_blend_def midtone_blend_def highlight_blend_def mix_def)
  have bw: "bw_weights (rgbToGrayscale 1 1 1 ''luminance'') = (0, 0, 1)"
    by (simp add: bw_weights_def rgbToGrayscale_def Let_def)
  have z: "bw_zone_blend 1 (cz_luminance zero_zone) 0.8 (real_of_int 3 * 0.2) 1 = 0.4"
    by (simp add: bw_zone_blend_def zero_zone_def)
  show ?thesis
    unfolding collect_single m b w bw mid_gray_combined white_and_red_combined z
    by (simp add: zero_zone_def)
qed

theorem zero_weight_zone_witness:
  "cz_weight (ca_shadows (combine_analyses [analyse_buffer white_and_red])) = 0 \<and>
   cz_weight (ca_midtones (combine_analyses [analyse_buffer white_and_red])) = 0 \<and>
   cz_weight (ca_highlights (combine_analyses [analyse_buffer white_and_red])) = 32 \<and>
   cz_weight (ca_highlights (combine_analyses [analyse_buffer mid_gray_image])) = 0 \<and>
   dv_shadows (aggregation_divisors [analyse_buffer white_and_red]) = [] \<and>
   dv_midtones (aggregation_divisors [analyse_buffer white_and_red]) = [] \<and>
   dv_highlights (aggregation_divisors [analyse_buffer white_and_red])
     = [32, 32, 32, 32, 32, 32, 32] \<and>
   dv_highlights (aggregation_divisors [analyse_buffer mid_gray_image]) = [] \<and>
   ca_shadows (combine_analyses [analyse_buffer white_and_red]) = zero_zone \<and>
   ca_midtones (combine_analyses [analyse_buffer white_and_red]) = zero_zone \<and>
   ca_highlights (combine_analyses [analyse_buffer mid_gray_image]) = zero_zone \<and>
   midtone_blend 0.45 1
       (t_midtones (solve_transforms 3 (combine_analyses [analyse_buffer white_and_red])))
       \<lparr>rgb_r = 0.5, rgb_g = 0.5, rgb_b = 0.5\<rparr> \<lparr>rgb_r = 0.5, rgb_g = 0.5, rgb_b = 0.5\<rparr>
     = mix (1 powr 0.5 * 0.45) \<lparr>rgb_r = 0.5, rgb_g = 0.5, rgb_b = 0.5\<rparr>
         (scale_rgb (zero_gain 3) \<lparr>rgb_r = 0.5, rgb_g = 0.5, rgb_b = 0.5\<rparr>)"
proof -
  let ?half = "\<lparr>rgb_r = 0.5, rgb_g = 0.5, rgb_b = 0.5\<rparr> :: rgb"
  have ws: "cz_weight (ca_shadows (combine_analyses [analyse_buffer white_and_red])) = 0"
    and wm: "cz_weight (ca_midtones (combine_analyses [analyse_buffer white_and_red])) = 0"
    by (simp_all add: white_and_red_combined zero_zone_def)
  have wh: "cz_weight (ca_highlights (combine_analyses [analyse_buffer mid_gray_image])) = 0"
    by (simp add: mid_gray_combined zero_zone_def)
  note t1 = zero_weight_zone [of "[analyse_buffer white_and_red]" "0.45" 1 3 "?half" "?half"]
  note t2 = zero_weight_zone [of "[analyse_buffer mid_gray_image]" "0.45" 1 3 "?half" "?half"]
  from t1 have "cz_weight (ca_highlights (combine_analyses [analyse_buffer white_and_red]))
      = sum_list (map (\<lambda>a. zone_count (highlights a)) [analyse_buffer white_and_red])"
    by blast
  then have wr: "cz_weight (ca_highlights (combine_analyses [analyse_buffer white_and_red])) = 32"
    by (simp add: white_and_red_analysis zone_count_def)
  from t1 have "dv_highlights (aggregation_divisors [analyse_buffer white_and_red])
     = (if 0 < cz_weight (ca_highlights (combine_analyses [analyse_buffer white_and_red]))
        then replicate 7 (cz_weight (ca_highlights (combine_analyses [analyse_buffer white_and_red])))
        else [])"
    by blast
  then have dr: "dv_highlights (aggregation_divisors [analyse_buffer white_and_red])
     = [32, 32, 32, 32, 32, 32, 32]"
    unfolding wr by (simp add: numeral_eq_Suc)
  from t1 ws have a: "dv_shadows (aggregation_divisors [analyse_buffer white_and_red]) = []
    \<and> ca_shadows (combine_analyses [analyse_buffer white_and_red]) = zero_zone"
    by blast
  from t1 wm have b: "dv_midtones (aggregation_divisors [analyse_buffer white_and_red]) = []
    \<and> ca_midtones (combine_analyses [analyse_buffer white_and_red]) = zero_zone
    \<and> midtone_blend 0.45 1
       (t_midtones (solve_transforms 3 (combine_analyses [analyse_buffer white_and_red])))
       ?half ?half
     = (if (1::real) > 0 then mix (1 powr 0.5 * 0.45) ?half (scale_rgb (zero_gain 3) ?half)
        else ?half)"
    by blast
  from t2 wh have c: "dv_highlights (aggregation_divisors [analyse_buffer mid_gray_image]) = []
    \<and> ca_highlights (combine_analyses [analyse_buffer mid_gray_image]) = zero_zone"
    by blast
  from b have d: "midtone_blend 0.45 1
       (t_midtones (solve_transforms 3 (combine_analyses [analyse_buffer white_and_red])))
       ?half ?half
     = mix (1 powr 0.5 * 0.45) ?half (scale_rgb (zero_gain 3) ?half)"
    by (simp only: zero_less_one if_True)
  from ws wm wr wh dr a b c d show ?thesis by blast
qed

end
